theory Spec2Isabelle
  imports Complex_Main "HOL-Library.Multiset" "HOL-Library.Char_ord" "HOL-Library.List_Lexorder"
begin

section \<open>The derangement generator (src/server/index.js, lines 61-71)\<close>

text \<open>
  \<^verbatim>\<open>
  function derangement(n) {
    const arr = Array.from({ length: n }, (_, i) => i);
    for (let tries = 0; tries < 2000; tries++) {
      for (let i = n - 1; i > 0; i--) {
        const j = Math.floor(Math.random() * (i + 1));
        [arr[i], arr[j]] = [arr[j], arr[i]];
      }
      if (arr.every((v, i) => v !== i)) return arr.slice();
    }
    throw new Error('Failed to create derangement');
  }
  \<close>

  The random source is a parameter: \<open>rnd k\<close> is the value the \<open>k\<close>-th call of
  \<open>Math.random()\<close> returns during the call of \<open>derangement\<close>, as a rational (every
  double is one). \<open>Math.random()\<close> returns a number \<open>r\<close> with \<open>0 \<le> r < 1\<close>; a source
  with that property is a \<open>unit_source\<close>. The product \<open>r * (i + 1)\<close> is taken exactly;
  the rounded product of the doubles stays below \<open>i + 1\<close> as well, so in the code as in
  the model \<open>j\<close> ranges over \<open>0..i\<close> and every array access is in range. The
  properties below are stated for unit sources.

  A thrown \<open>Error\<close> is the left injection of a sum; the array is a list of naturals.
  \<open>n\<close> is the length of an array in the only caller, hence a natural number.
\<close>

datatype error = Error string

definition unit_source :: "(nat \<Rightarrow> rat) \<Rightarrow> bool" where
  "unit_source rnd \<longleftrightarrow> (\<forall>k. 0 \<le> rnd k \<and> rnd k < 1)"

text \<open>\<^verbatim>\<open>Math.floor(Math.random() * (i + 1))\<close> at the \<open>k\<close>-th draw.\<close>

definition random_index :: "(nat \<Rightarrow> rat) \<Rightarrow> nat \<Rightarrow> nat \<Rightarrow> nat" where
  "random_index rnd k i = nat \<lfloor>rnd k * of_nat (i + 1)\<rfloor>"

text \<open>
  \<^verbatim>\<open>[arr[i], arr[j]] = [arr[j], arr[i]]\<close>: both reads happen before the two writes,
  \<open>arr[i]\<close> is written first.
\<close>

definition swap :: "nat list \<Rightarrow> nat \<Rightarrow> nat \<Rightarrow> nat list" where
  "swap arr i j = (let a = arr ! j; b = arr ! i in (arr[i := a])[j := b])"

text \<open>
  The inner loop \<^verbatim>\<open>for (let i = n - 1; i > 0; i--)\<close>, started at \<open>i\<close>; it returns the
  array and the number of draws made so far. For \<open>n = 0\<close> the source starts at \<open>-1\<close>
  and the model at \<open>0\<close>: the body runs in neither.
\<close>

fun shuffle :: "(nat \<Rightarrow> rat) \<Rightarrow> nat \<Rightarrow> nat list \<Rightarrow> nat \<Rightarrow> nat list \<times> nat" where
  "shuffle rnd 0 arr k = (arr, k)"
| "shuffle rnd (Suc i) arr k =
     (let j = random_index rnd k (Suc i)
      in shuffle rnd i (swap arr (Suc i) j) (Suc k))"

text \<open>\<^verbatim>\<open>arr.every((v, i) => v !== i)\<close>\<close>

definition every_moved :: "nat list \<Rightarrow> bool" where
  "every_moved arr = list_all (\<lambda>(v, i). v \<noteq> i) (zip arr [0..<length arr])"

text \<open>
  The outer loop, entered with the array \<open>arr\<close> (which is not reset between attempts),
  the loop variable \<open>tries\<close> and \<open>k\<close> draws made. Beside the outcome it returns the number
  of attempts (shuffle and check) made when the function is left; the count is an
  observation added to the model, the source does not return it.
\<close>

function derangement_loop ::
  "(nat \<Rightarrow> rat) \<Rightarrow> nat \<Rightarrow> nat list \<Rightarrow> nat \<Rightarrow> nat \<Rightarrow> (error + nat list) \<times> nat" where
  "derangement_loop rnd n arr tries k =
     (if tries < 2000 then
        (case shuffle rnd (n - 1) arr k of
           (arr', k') \<Rightarrow>
             if every_moved arr' then (Inr arr', Suc tries)
             else derangement_loop rnd n arr' (Suc tries) k')
      else (Inl (Error ''Failed to create derangement''), tries))"
  by pat_completeness auto
termination
  by (relation "measure (\<lambda>(rnd, n, arr, tries, k). 2000 - tries)") auto

declare derangement_loop.simps [simp del]

definition derangement_run :: "(nat \<Rightarrow> rat) \<Rightarrow> nat \<Rightarrow> (error + nat list) \<times> nat" where
  "derangement_run rnd n = derangement_loop rnd n [0..<n] 0 0"

definition derangement :: "(nat \<Rightarrow> rat) \<Rightarrow> nat \<Rightarrow> error + nat list" where
  "derangement rnd n = fst (derangement_run rnd n)"

definition derangement_attempts :: "(nat \<Rightarrow> rat) \<Rightarrow> nat \<Rightarrow> nat" where
  "derangement_attempts rnd n = snd (derangement_run rnd n)"

text \<open>The contract of a result: a permutation of \<open>[0, n)\<close> without a fixed point.\<close>

definition is_derangement :: "nat \<Rightarrow> nat list \<Rightarrow> bool" where
  "is_derangement n perm \<longleftrightarrow>
     length perm = n \<and> distinct perm \<and> set perm = {0..<n} \<and> (\<forall>i<n. perm ! i \<noteq> i)"

text \<open>
  Three sources used as concrete inputs: every draw is \<open>1/2\<close>, every draw is \<open>0\<close>,
  every draw is \<open>3/8\<close>.
\<close>

definition half_source :: "nat \<Rightarrow> rat" where
  "half_source k = 1 / 2"

definition zero_source :: "nat \<Rightarrow> rat" where
  "zero_source k = 0"

definition three_eighths_source :: "nat \<Rightarrow> rat" where
  "three_eighths_source k = 3 / 8"

section \<open>Persisted state and the token registry (lines 12-59)\<close>

text \<open>
  The values a token can be in the running program. \<open>state.tokens\<close> is the object that
  \<open>JSON.parse\<close> made of the file, and \<^verbatim>\<open>state.tokens[person.name]\<close> reads through its
  prototype: for a name that is not a property of the object itself but is one of
  \<open>Object.prototype\<close>, the read gives that member (a function, or for \<open>__proto__\<close> the
  prototype object), which is truthy, is not a string, and is a different value for every
  such name. \<open>Inherited n\<close> is the member of name \<open>n\<close>. \<open>EmptyObject\<close> is the object a
  \<open>{}\<close> in a JSON file is parsed to.
\<close>

datatype jsval = Undefined | Str string | Inherited string | EmptyObject

text \<open>The names of the properties of \<open>Object.prototype\<close>.\<close>

definition prototype_members :: "string list" where
  "prototype_members =
     [''constructor'', ''__defineGetter__'', ''__defineSetter__'', ''hasOwnProperty'',
      ''__lookupGetter__'', ''__lookupSetter__'', ''isPrototypeOf'',
      ''propertyIsEnumerable'', ''toString'', ''valueOf'', ''__proto__'',
      ''toLocaleString'']"

text \<open>
  \<^verbatim>\<open>state.tokens[name]\<close>, for the own properties \<open>tokens\<close> of the object (those the file
  holds, all strings).
\<close>

definition property :: "(string \<rightharpoonup> string) \<Rightarrow> string \<Rightarrow> jsval" where
  "property tokens n =
     (case tokens n of
        Some t \<Rightarrow> Str t
      | None \<Rightarrow> if n \<in> set prototype_members then Inherited n else Undefined)"

text \<open>\<^verbatim>\<open>!v\<close>: of the strings only the empty one is falsy, and no object is.\<close>

fun falsy :: "jsval \<Rightarrow> bool" where
  "falsy Undefined = True"
| "falsy (Str t) = (t = [])"
| "falsy (Inherited n) = False"
| "falsy EmptyObject = False"

text \<open>
  What \<open>JSON.stringify\<close> followed by \<open>JSON.parse\<close> makes of a property: a string stays,
  a property that is \<open>undefined\<close> or a function is left out (and reads as \<open>undefined\<close>),
  and the prototype object is written as \<open>{}\<close>.
\<close>

fun json :: "jsval \<Rightarrow> jsval" where
  "json (Str t) = Str t"
| "json Undefined = Undefined"
| "json (Inherited n) = (if n = ''__proto__'' then EmptyObject else Undefined)"
| "json EmptyObject = EmptyObject"

text \<open>
  An entry of \<open>colleagues.json\<close> is a \<open>person\<close>; \<open>loadColleaguesWithTokens\<close> returns
  each entry with its token added (\<^verbatim>\<open>{ ...p, token: state.tokens[p.name] }\<close>), a
  \<open>participant\<close>. A row of the assignments store has the columns \<open>token\<close>, \<open>giver\<close>,
  \<open>receiver_token\<close> and \<open>receiver\<close> of the source; the column \<open>token\<close> (the giver's
  token) is the field \<open>giver_token\<close> here, since a record field cannot share the name
  of the participant's.
\<close>

record person =
  name :: string
  birthday :: string
  anniversary :: string

record participant = person +
  token :: jsval

record assignment =
  giver_token :: jsval
  giver :: string
  receiver_token :: jsval
  receiver :: string

text \<open>
  What the process reads and writes. A file is \<open>None\<close> when it does not exist, and
  holds a well-formed value of the shape the code expects otherwise. \<open>hasSupabase\<close> is
  the constant of that name, fixed when the process starts. \<open>assignments_table\<close> is
  the table \<open>assignments\<close> of the Supabase service, the list of its rows. \<open>seed_json\<close>
  is \<open>colleagues.json\<close> in the repository's own data directory, read only while the
  data directory has no such file.

  \<open>derangement_calls\<close> counts the calls of \<open>derangement\<close>. It is an observation added
  to the model; nothing in the source reads or writes it.
\<close>

record server =
  hasSupabase :: bool
  dataDir_exists :: bool
  colleagues_json :: "person list option"
  seed_json :: "person list option"
  state_json :: "(string \<rightharpoonup> string) option"
  assignments_json :: "assignment list option"
  assignments_table :: "assignment list"
  derangement_calls :: nat

text \<open>The message of a thrown error, as the handler's \<open>detail\<close> reports it.\<close>

fun message :: "error \<Rightarrow> string" where
  "message (Error m) = m"

text \<open>
  \<^verbatim>\<open>
  function ensureState() {
    if (!fs.existsSync(statePath)) {
      writeJSON(statePath, { tokens: {} });
    }
  }
  \<close>
  \<open>state_json\<close> holds the own properties of the object \<open>tokens\<close> of the file, a map
  from names to tokens.
\<close>

definition ensureState :: "server \<Rightarrow> server" where
  "ensureState s =
     (if state_json s = None then s\<lparr>state_json := Some Map.empty\<rparr> else s)"

text \<open>
  \<^verbatim>\<open>
  function ensureDataDirAndSeed() {
    if (!fs.existsSync(dataDir)) {
      fs.mkdirSync(dataDir, { recursive: true });
    }
    if (!fs.existsSync(colleaguesPath)) {
      const seedPath = path.join(repoDataDir, 'colleagues.json');
      if (fs.existsSync(seedPath)) {
        fs.copyFileSync(seedPath, colleaguesPath);
      } else {
        writeJSON(colleaguesPath, []);
      }
    }
  }
  \<close>
\<close>

definition ensureDataDirAndSeed :: "server \<Rightarrow> server" where
  "ensureDataDirAndSeed s =
     (let s1 = (if \<not> dataDir_exists s then s\<lparr>dataDir_exists := True\<rparr> else s)
      in if colleagues_json s1 = None then
           (case seed_json s1 of
              Some seed \<Rightarrow> s1\<lparr>colleagues_json := Some seed\<rparr>
            | None \<Rightarrow> s1\<lparr>colleagues_json := Some []\<rparr>)
         else s1)"

text \<open>
  The loop of \<open>loadColleaguesWithTokens\<close>
  \<^verbatim>\<open>
  for (const person of list) {
    if (!state.tokens[person.name]) {
      state.tokens[person.name] = randomUUID();
    }
  }
  \<close>
  \<open>uuids k\<close> is the value of the \<open>k\<close>-th call of \<open>randomUUID()\<close> during the load; the
  loop returns the own properties and the number of calls made. The assignment is
  reached only when the read is falsy, that is when the name is no property at all or an
  own property holding the empty string; in both cases it sets the own property.
\<close>

fun ensure_tokens ::
  "(nat \<Rightarrow> string) \<Rightarrow> person list \<Rightarrow> (string \<rightharpoonup> string) \<Rightarrow> nat
   \<Rightarrow> (string \<rightharpoonup> string) \<times> nat" where
  "ensure_tokens uuids [] tokens k = (tokens, k)"
| "ensure_tokens uuids (person # list) tokens k =
     (if falsy (property tokens (name person))
      then ensure_tokens uuids list (tokens(name person \<mapsto> uuids k)) (Suc k)
      else ensure_tokens uuids list tokens k)"

text \<open>\<^verbatim>\<open>{ ...p, token: state.tokens[p.name] }\<close>\<close>

definition with_token :: "(string \<rightharpoonup> string) \<Rightarrow> person \<Rightarrow> participant" where
  "with_token tokens p =
     \<lparr>name = name p, birthday = birthday p, anniversary = anniversary p,
      token = property tokens (name p)\<rparr>"

text \<open>
  \<^verbatim>\<open>
  function loadColleaguesWithTokens() {
    ensureDataDirAndSeed();
    const list = readJSON(colleaguesPath);
    ensureState();
    const state = readJSON(statePath);
    for (const person of list) { ... }
    writeJSON(statePath, state);
    return list.map(p => ({ ...p, token: state.tokens[p.name] }));
  }
  \<close>
  \<open>readJSON\<close> of a file that does not exist throws; the state is returned in both cases.
  \<open>writeJSON\<close> writes the own properties, which are strings.
\<close>

definition loadColleaguesWithTokens ::
  "(nat \<Rightarrow> string) \<Rightarrow> server \<Rightarrow> (error + participant list) \<times> server" where
  "loadColleaguesWithTokens uuids s =
     (let s1 = ensureDataDirAndSeed s
      in case colleagues_json s1 of
           None \<Rightarrow> (Inl (Error ''ENOENT: no such file or directory''), s1)
         | Some list \<Rightarrow>
             (let s2 = ensureState s1
              in case state_json s2 of
                   None \<Rightarrow> (Inl (Error ''ENOENT: no such file or directory''), s2)
                 | Some tokens \<Rightarrow>
                     (let tokens' = fst (ensure_tokens uuids list tokens 0)
                      in (Inr (map (with_token tokens') list),
                          s2\<lparr>state_json := Some tokens'\<rparr>))))"

section \<open>The assignments store (lines 73-111)\<close>

text \<open>
  A row as it is after it has been written as JSON (to the file, or as the body of the
  request to the service) and read again.
\<close>

definition written :: "assignment \<Rightarrow> assignment" where
  "written r =
     r\<lparr>giver_token := json (giver_token r), receiver_token := json (receiver_token r)\<rparr>"

text \<open>\<^verbatim>\<open>typeof v === 'string'\<close>, what a key of the table has to be.\<close>

fun is_string :: "jsval \<Rightarrow> bool" where
  "is_string (Str t) = True"
| "is_string v = False"

text \<open>
  Modelled from the spec: the Supabase service and the schema of its table
  \<open>assignments\<close> are not in the repository. The spec has the store keyed by the giver's
  token, with an upsert that overwrites the row of a token and is all-or-nothing for the
  batch; the source makes the calls \<open>upsert(pairs, { onConflict: 'token' })\<close>,
  \<open>select('*')\<close> with \<open>order\<close> or with \<open>eq('token', token).maybeSingle()\<close>, and
  \<open>delete().neq('token', '')\<close>, and tests the \<open>error\<close> of each answer. So: the table
  has at most one row per token; a row whose token is in the table replaces the row of
  that token, any other row is added; a batch with a row that has no string as its token,
  or with one token twice, is refused as a whole. Any call may also answer with an error
  of the service (it is unreachable, say), and then has no effect: the error of each
  call, if any, is a parameter of the function that makes the call.
\<close>

definition upsert_row :: "assignment \<Rightarrow> assignment list \<Rightarrow> assignment list" where
  "upsert_row r tbl =
     (if giver_token r \<in> set (map giver_token tbl)
      then map (\<lambda>x. if giver_token x = giver_token r then r else x) tbl
      else tbl @ [r])"

definition upsert :: "assignment list \<Rightarrow> assignment list \<Rightarrow> error + assignment list" where
  "upsert pairs tbl =
     (if \<not> list_all (\<lambda>r. is_string (giver_token r)) pairs
      then Inl (Error ''null value in column token violates not-null constraint'')
      else if \<not> distinct (map giver_token pairs)
      then Inl (Error ''ON CONFLICT DO UPDATE command cannot affect row a second time'')
      else Inr (fold upsert_row (map written pairs) tbl))"

text \<open>
  \<^verbatim>\<open>
  async function saveAssignments(pairs) {
    if (hasSupabase) {
      const { error } = await supabase.from('assignments').upsert(pairs, { onConflict: 'token' });
      if (error) throw error;
      return;
    }
    ensureDataDirAndSeed();
    writeJSON(localAssignmentsPath, pairs);
  }
  \<close>
  \<open>err\<close> is the error of the service for this call, if any.
\<close>

definition saveAssignments ::
  "string option \<Rightarrow> assignment list \<Rightarrow> server \<Rightarrow> error + server" where
  "saveAssignments err pairs s =
     (if hasSupabase s then
        (case err of
           Some e \<Rightarrow> Inl (Error e)
         | None \<Rightarrow>
             (case upsert pairs (assignments_table s) of
                Inl e \<Rightarrow> Inl e
              | Inr tbl \<Rightarrow> Inr (s\<lparr>assignments_table := tbl\<rparr>)))
      else Inr ((ensureDataDirAndSeed s)\<lparr>assignments_json := Some (map written pairs)\<rparr>))"

text \<open>
  The last two lines of \<open>getAllAssignments\<close>, the local file:
  \<^verbatim>\<open>
  if (!fs.existsSync(localAssignmentsPath)) return [];
  return readJSON(localAssignmentsPath);
  \<close>
\<close>

definition readLocalAssignments :: "server \<Rightarrow> assignment list" where
  "readLocalAssignments s = (case assignments_json s of None \<Rightarrow> [] | Some rows \<Rightarrow> rows)"

text \<open>
  \<^verbatim>\<open>
  async function getAllAssignments() {
    if (hasSupabase) {
      const { data, error } = await supabase.from('assignments').select('*')
        .order('giver', { ascending: true });
      if (error) throw error;
      return data || [];
    }
    if (!fs.existsSync(localAssignmentsPath)) return [];
    return readJSON(localAssignmentsPath);
  }
  \<close>
  The rows come ordered by \<open>giver\<close>, here in the lexicographic order of the characters.
\<close>

definition getAllAssignments :: "string option \<Rightarrow> server \<Rightarrow> error + assignment list" where
  "getAllAssignments err s =
     (if hasSupabase s then
        (case err of
           Some e \<Rightarrow> Inl (Error e)
         | None \<Rightarrow> Inr (sort_key giver (assignments_table s)))
      else Inr (readLocalAssignments s))"

text \<open>
  \<^verbatim>\<open>
  async function getByToken(token) {
    if (hasSupabase) {
      const { data, error } = await supabase.from('assignments').select('*')
        .eq('token', token).maybeSingle();
      if (error) return null;
      return data;
    }
    const list = await getAllAssignments();
    return list.find(r => r.token === token) || null;
  }
  \<close>
  With an error of the service the function returns \<open>null\<close>. \<open>maybeSingle()\<close> gives
  the row when exactly one matches, \<open>null\<close> when none does, and an error (again
  \<open>null\<close>) when several do. The call of \<open>getAllAssignments\<close> is made with
  \<open>hasSupabase\<close> false, where that function is its last two lines.
\<close>

definition getByToken :: "string option \<Rightarrow> string \<Rightarrow> server \<Rightarrow> assignment option" where
  "getByToken err tok s =
     (if hasSupabase s then
        (case err of
           Some e \<Rightarrow> None
         | None \<Rightarrow>
             (case filter (\<lambda>r. giver_token r = Str tok) (assignments_table s) of
                [r] \<Rightarrow> Some r
              | _ \<Rightarrow> None))
      else find (\<lambda>r. giver_token r = Str tok) (readLocalAssignments s))"

section \<open>The request handlers (lines 121-151 and 177-196)\<close>

text \<open>
  The answers of the two handlers: \<^verbatim>\<open>res.json({ assignee })\<close>,
  \<^verbatim>\<open>res.json({ ok: true })\<close>, \<^verbatim>\<open>res.status(c).json({ error })\<close>, and the answer of the
  \<open>catch\<close> of \<open>/api/assign\<close>, status 500 with \<open>error: 'internal error'\<close> and the
  thrown error's message as \<open>detail\<close> (the field \<open>raw\<close> is left out). An \<open>assignee\<close>
  that is \<open>null\<close> or \<open>undefined\<close> is \<open>None\<close>.
\<close>

datatype response =
    Assignee "participant option"
  | Ok
  | Status nat string
  | InternalError string

text \<open>
  \<open>req.body.token\<close>: absent, a string, or another value of the parsed body (a number,
  a boolean, \<open>null\<close>, an array or an object). Of such a value only its truthiness
  matters here: it is identical to no string and to no member of \<open>Object.prototype\<close>,
  hence the key of no entry of the map of the participants' tokens.
\<close>

datatype body = Absent | Text string | Other bool

text \<open>\<^verbatim>\<open>!token\<close>\<close>

fun falsy_body :: "body \<Rightarrow> bool" where
  "falsy_body Absent = True"
| "falsy_body (Text t) = (t = [])"
| "falsy_body (Other truthy) = (\<not> truthy)"

text \<open>
  \<^verbatim>\<open>new Map(people.map((p, i) => [p.token, i]))\<close>: of two entries with one key the
  later one stays.
\<close>

definition tokenToIndex :: "participant list \<Rightarrow> jsval \<rightharpoonup> nat" where
  "tokenToIndex people = map_of (rev (zip (map token people) [0..<length people]))"

text \<open>
  The loop that builds the rows from the permutation
  \<^verbatim>\<open>
  for (let i = 0; i < people.length; i++) {
    const giver = people[i];
    const receiver = people[perm[i]];
    rows.push({ token: giver.token, giver: giver.name,
                receiver_token: receiver.token, receiver: receiver.name });
  }
  \<close>
\<close>

definition build_rows :: "participant list \<Rightarrow> nat list \<Rightarrow> assignment list" where
  "build_rows people perm =
     map (\<lambda>i. let giver = people ! i; receiver = people ! (perm ! i)
              in \<lparr>giver_token = token giver, giver = name giver,
                  receiver_token = token receiver, receiver = name receiver\<rparr>)
       [0..<length people]"

text \<open>Lines 133-139: one derangement, then the rows.\<close>

definition buildAssignments ::
  "(nat \<Rightarrow> rat) \<Rightarrow> participant list \<Rightarrow> error + assignment list" where
  "buildAssignments rnd people =
     (case derangement rnd (length people) of
        Inl e \<Rightarrow> Inl e
      | Inr perm \<Rightarrow> Inr (build_rows people perm))"

text \<open>
  Lines 133-140, the body of \<^verbatim>\<open>if (!existing)\<close>: the error thrown, if any, and the
  state. \<open>err\<close> is the error of the service for the upsert, if any.
\<close>

definition generate ::
  "string option \<Rightarrow> (nat \<Rightarrow> rat) \<Rightarrow> participant list \<Rightarrow> server \<Rightarrow> error option \<times> server" where
  "generate err rnd people s =
     (let s1 = s\<lparr>derangement_calls := Suc (derangement_calls s)\<rparr>
      in case buildAssignments rnd people of
           Inl e \<Rightarrow> (Some e, s1)
         | Inr rows \<Rightarrow>
             (case saveAssignments err rows s1 of
                Inl e \<Rightarrow> (Some e, s1)
              | Inr s2 \<Rightarrow> (None, s2)))"

text \<open>
  Lines 143-145:
  \<^verbatim>\<open>
  const row = await getByToken(token);
  const assignee = row ? people.find(p => p.token === row.receiver_token) : null;
  return res.json({ assignee });
  \<close>
\<close>

definition respond :: "string option \<Rightarrow> participant list \<Rightarrow> string \<Rightarrow> server \<Rightarrow> response" where
  "respond err people tok s =
     Assignee (case getByToken err tok s of
                 None \<Rightarrow> None
               | Some row \<Rightarrow> find (\<lambda>p. token p = receiver_token row) people)"

text \<open>
  \<^verbatim>\<open>
  app.post('/api/assign', async (req, res) => {
    try {
      const token = req.body.token;
      if (!token) return res.status(400).json({ error: 'token required' });
      const people = loadColleaguesWithTokens();
      const tokenToIndex = new Map(people.map((p, i) => [p.token, i]));
      const idx = tokenToIndex.get(token);
      if (idx === undefined) return res.status(404).json({ error: 'invalid token' });
      const existing = await getByToken(token);
      if (!existing) { ... await saveAssignments(rows); }
      const row = await getByToken(token);
      ...
      return res.json({ assignee });
    } catch (e) {
      ...
      return res.status(500).json({ error: 'internal error', detail, raw: JSON.stringify(e) });
    }
  });
  \<close>
  \<open>uuids\<close> and \<open>rnd\<close> are the values \<open>randomUUID()\<close> and \<open>Math.random()\<close> return
  during the request, and \<open>supa k\<close> is the error, if any, with which the service
  answers the \<open>k\<close>-th call made to it during the request: the first \<open>getByToken\<close> is
  call 0, and the second is call 2 after an upsert (call 1) and call 1 otherwise.
\<close>

definition assign ::
  "(nat \<Rightarrow> string option) \<Rightarrow> (nat \<Rightarrow> string) \<Rightarrow> (nat \<Rightarrow> rat) \<Rightarrow> body \<Rightarrow> server
   \<Rightarrow> response \<times> server" where
  "assign supa uuids rnd body_token s =
     (if falsy_body body_token then (Status 400 ''token required'', s)
      else
        (case loadColleaguesWithTokens uuids s of
           (Inl e, s1) \<Rightarrow> (InternalError (message e), s1)
         | (Inr people, s1) \<Rightarrow>
             (case body_token of
                Text tok \<Rightarrow>
                  (case tokenToIndex people (Str tok) of
                     None \<Rightarrow> (Status 404 ''invalid token'', s1)
                   | Some idx \<Rightarrow>
                       (case getByToken (supa 0) tok s1 of
                          Some existing \<Rightarrow> (respond (supa 1) people tok s1, s1)
                        | None \<Rightarrow>
                            (case generate (supa 1) rnd people s1 of
                               (Some e, s2) \<Rightarrow> (InternalError (message e), s2)
                             | (None, s2) \<Rightarrow> (respond (supa 2) people tok s2, s2))))
              | _ \<Rightarrow> (Status 404 ''invalid token'', s1))))"

text \<open>
  \<^verbatim>\<open>
  app.post('/admin/reset', async (req, res) => {
    try {
      // [clear the file assignments.json]
      writeJSON(localAssignmentsPath, []);
      // [if Supabase is used, clear the table assignments]
      if (hasSupabase) {
        const { error } = await supabase.from('assignments').delete()
          .neq('token', ''); // [delete all records]
        if (error) throw error;
      }
      res.json({ ok: true });
    } catch (e) {
      console.error(e);
      res.status(500).json({ error: 'failed to reset' });
    }
  });
  \<close>
  (the comments are in Russian in the source and translated here). \<open>writeJSON\<close> is not
  preceded by \<open>ensureDataDirAndSeed\<close> as it is in \<open>saveAssignments\<close>: writing into a
  directory that does not exist throws, before the table is reached.
  \<open>delete().neq('token', '')\<close> removes the rows whose token is a string other than the
  empty one. \<open>supa 0\<close> is the error of the service for the delete, if any.
\<close>

definition reset :: "(nat \<Rightarrow> string option) \<Rightarrow> server \<Rightarrow> response \<times> server" where
  "reset supa s =
     (if \<not> dataDir_exists s then (Status 500 ''failed to reset'', s)
      else
        (let s1 = s\<lparr>assignments_json := Some []\<rparr>
         in if hasSupabase s1 then
              (case supa 0 of
                 Some e \<Rightarrow> (Status 500 ''failed to reset'', s1)
               | None \<Rightarrow>
                   (Ok, s1\<lparr>assignments_table :=
                           filter (\<lambda>r. \<not> (is_string (giver_token r) \<and> giver_token r \<noteq> Str []))
                             (assignments_table s1)\<rparr>))
            else (Ok, s1)))"

section \<open>Notions used in the statements\<close>

text \<open>The list a load reads, and the tokens issued before it.\<close>

definition listed :: "server \<Rightarrow> person list" where
  "listed s =
     (case colleagues_json s of
        Some list \<Rightarrow> list
      | None \<Rightarrow> (case seed_json s of Some seed \<Rightarrow> seed | None \<Rightarrow> []))"

definition issued :: "server \<Rightarrow> string \<rightharpoonup> string" where
  "issued s = (case state_json s of Some tokens \<Rightarrow> tokens | None \<Rightarrow> Map.empty)"

text \<open>
  What is assumed of \<open>randomUUID()\<close>: a UUID is not the empty string, no UUID is
  returned twice, and none is returned that has been issued before.
\<close>

definition truthy_uuids :: "(nat \<Rightarrow> string) \<Rightarrow> bool" where
  "truthy_uuids uuids \<longleftrightarrow> (\<forall>k. uuids k \<noteq> [])"

definition unique_uuids :: "(nat \<Rightarrow> string) \<Rightarrow> (string \<rightharpoonup> string) \<Rightarrow> bool" where
  "unique_uuids uuids tokens \<longleftrightarrow>
     (\<forall>i j. uuids i = uuids j \<longrightarrow> i = j) \<and> (\<forall>k n. tokens n \<noteq> Some (uuids k))"

text \<open>No token (other than the falsy empty one) is issued to two names.\<close>

definition distinct_tokens :: "(string \<rightharpoonup> string) \<Rightarrow> bool" where
  "distinct_tokens tokens \<longleftrightarrow>
     (\<forall>n m t. tokens n = Some t \<and> tokens m = Some t \<and> t \<noteq> [] \<longrightarrow> n = m)"

text \<open>The table is keyed by the token: no two rows have one token.\<close>

definition table_keyed :: "server \<Rightarrow> bool" where
  "table_keyed s \<longleftrightarrow> distinct (map giver_token (assignments_table s))"

text \<open>
  The state a load leaves: the data directory and both files are there, and every listed
  name reads as a token that is not falsy.
\<close>

definition loaded_with :: "person list \<Rightarrow> (string \<rightharpoonup> string) \<Rightarrow> server \<Rightarrow> bool" where
  "loaded_with list tokens s \<longleftrightarrow>
     dataDir_exists s \<and> colleagues_json s = Some list \<and> state_json s = Some tokens
     \<and> (\<forall>p\<in>set list. \<not> falsy (property tokens (name p)))"

text \<open>Every row of the table has a string other than the empty one as its token.\<close>

definition tokens_truthy :: "server \<Rightarrow> bool" where
  "tokens_truthy s \<longleftrightarrow>
     (\<forall>r\<in>set (assignments_table s). is_string (giver_token r) \<and> giver_token r \<noteq> Str [])"

text \<open>The service answers every call without error; it answers the first call with one.\<close>

definition no_errors :: "nat \<Rightarrow> string option" where
  "no_errors k = None"

definition first_call_fails :: "nat \<Rightarrow> string option" where
  "first_call_fails k = (if k = 0 then Some ''fetch failed'' else None)"

text \<open>
  Concrete inputs: three colleagues, a source of UUIDs, the server at its first start and
  after a load, on the local file and on Supabase.
\<close>

definition alice :: person where
  "alice = \<lparr>name = ''Alice'', birthday = ''1990-01-01'', anniversary = ''2020-01-01''\<rparr>"

definition bob :: person where
  "bob = \<lparr>name = ''Bob'', birthday = ''1991-02-02'', anniversary = ''2021-02-02''\<rparr>"

definition carol :: person where
  "carol = \<lparr>name = ''Carol'', birthday = ''1992-03-03'', anniversary = ''2022-03-03''\<rparr>"

definition uuid_source :: "nat \<Rightarrow> string" where
  "uuid_source k = ''uuid-'' @ replicate k (CHR ''x'')"

definition first_start :: "person list \<Rightarrow> server" where
  "first_start seed =
     \<lparr>hasSupabase = False, dataDir_exists = False, colleagues_json = None,
      seed_json = Some seed, state_json = None, assignments_json = None,
      assignments_table = [], derangement_calls = 0\<rparr>"

definition alice_bob :: "participant list" where
  "alice_bob =
     [\<lparr>name = ''Alice'', birthday = ''1990-01-01'', anniversary = ''2020-01-01'',
       token = Str ''uuid-''\<rparr>,
      \<lparr>name = ''Bob'', birthday = ''1991-02-02'', anniversary = ''2021-02-02'',
       token = Str ''uuid-x''\<rparr>]"

definition started :: "person list \<Rightarrow> (string \<rightharpoonup> string) \<Rightarrow> server" where
  "started list tokens =
     \<lparr>hasSupabase = False, dataDir_exists = True, colleagues_json = Some list,
      seed_json = Some list, state_json = Some tokens, assignments_json = None,
      assignments_table = [], derangement_calls = 0\<rparr>"

definition alice_bob_rows :: "assignment list" where
  "alice_bob_rows =
     [\<lparr>giver_token = Str ''uuid-'', giver = ''Alice'', receiver_token = Str ''uuid-x'',
       receiver = ''Bob''\<rparr>,
      \<lparr>giver_token = Str ''uuid-x'', giver = ''Bob'', receiver_token = Str ''uuid-'',
       receiver = ''Alice''\<rparr>]"

definition issued_ab :: "string \<rightharpoonup> string" where
  "issued_ab = [''Alice'' \<mapsto> ''uuid-'', ''Bob'' \<mapsto> ''uuid-x'']"

definition issued_a :: "string \<rightharpoonup> string" where
  "issued_a = [''Alice'' \<mapsto> ''uuid-'']"

definition alice_only :: participant where
  "alice_only =
     \<lparr>name = ''Alice'', birthday = ''1990-01-01'', anniversary = ''2020-01-01'',
      token = Str ''uuid-''\<rparr>"

text \<open>
  The server on Supabase with three colleagues and their tokens issued, the three as
  participants, and the two derangements of three as rows.
\<close>

definition issued_abc :: "string \<rightharpoonup> string" where
  "issued_abc = [''Alice'' \<mapsto> ''uuid-'', ''Bob'' \<mapsto> ''uuid-x'', ''Carol'' \<mapsto> ''uuid-xx'']"

definition on_supabase :: server where
  "on_supabase =
     \<lparr>hasSupabase = True, dataDir_exists = True, colleagues_json = Some [alice, bob, carol],
      seed_json = None, state_json = Some issued_abc, assignments_json = None,
      assignments_table = [], derangement_calls = 0\<rparr>"

definition alice_p :: participant where
  "alice_p =
     \<lparr>name = ''Alice'', birthday = ''1990-01-01'', anniversary = ''2020-01-01'',
      token = Str ''uuid-''\<rparr>"

definition bob_p :: participant where
  "bob_p =
     \<lparr>name = ''Bob'', birthday = ''1991-02-02'', anniversary = ''2021-02-02'',
      token = Str ''uuid-x''\<rparr>"

definition carol_p :: participant where
  "carol_p =
     \<lparr>name = ''Carol'', birthday = ''1992-03-03'', anniversary = ''2022-03-03'',
      token = Str ''uuid-xx''\<rparr>"

definition first_draw :: "assignment list" where
  "first_draw =
     [\<lparr>giver_token = Str ''uuid-'', giver = ''Alice'', receiver_token = Str ''uuid-x'',
       receiver = ''Bob''\<rparr>,
      \<lparr>giver_token = Str ''uuid-x'', giver = ''Bob'', receiver_token = Str ''uuid-xx'',
       receiver = ''Carol''\<rparr>,
      \<lparr>giver_token = Str ''uuid-xx'', giver = ''Carol'', receiver_token = Str ''uuid-'',
       receiver = ''Alice''\<rparr>]"

definition second_draw :: "assignment list" where
  "second_draw =
     [\<lparr>giver_token = Str ''uuid-'', giver = ''Alice'', receiver_token = Str ''uuid-xx'',
       receiver = ''Carol''\<rparr>,
      \<lparr>giver_token = Str ''uuid-x'', giver = ''Bob'', receiver_token = Str ''uuid-'',
       receiver = ''Alice''\<rparr>,
      \<lparr>giver_token = Str ''uuid-xx'', giver = ''Carol'', receiver_token = Str ''uuid-x'',
       receiver = ''Bob''\<rparr>]"

text \<open>
  The server on Supabase after a new deployment: the table still holds the rows for
  Alice and Bob, the data directory has not been made yet.
\<close>

definition redeployed :: server where
  "redeployed =
     \<lparr>hasSupabase = True, dataDir_exists = False, colleagues_json = None,
      seed_json = Some [alice, bob], state_json = None, assignments_json = None,
      assignments_table = alice_bob_rows, derangement_calls = 0\<rparr>"

section \<open>Properties of the derangement generator\<close>

lemma unit_source_half: "unit_source half_source"
  by (simp add: unit_source_def half_source_def)

lemma unit_source_zero: "unit_source zero_source"
  by (simp add: unit_source_def zero_source_def)

lemma random_index_le:
  assumes "unit_source rnd"
  shows "random_index rnd k i \<le> i"
proof -
  have r: "0 \<le> rnd k" "rnd k < 1"
    using assms by (simp_all add: unit_source_def)
  have "rnd k * of_nat (i + 1) < 1 * of_nat (i + 1)"
    by (rule mult_strict_right_mono [OF r(2)]) simp
  moreover have "(1::rat) * of_nat (i + 1) = of_int (int i + 1)"
    by simp
  ultimately have "rnd k * of_nat (i + 1) < of_int (int i + 1)"
    by (simp only:)
  then have "\<lfloor>rnd k * of_nat (i + 1)\<rfloor> < int i + 1"
    by (simp only: floor_less_iff)
  then show ?thesis
    by (simp add: random_index_def)
qed

lemma mset_swap_arr:
  "i < length arr \<Longrightarrow> j < length arr \<Longrightarrow> mset (swap arr i j) = mset arr"
  by (simp add: swap_def Let_def mset_swap)

lemma length_swap [simp]: "length (swap arr i j) = length arr"
  by (simp add: swap_def Let_def)

lemma mset_shuffle:
  "unit_source rnd \<Longrightarrow> i < length arr \<Longrightarrow> mset (fst (shuffle rnd i arr k)) = mset arr"
proof (induction i arbitrary: arr k)
  case 0
  then show ?case by simp
next
  case (Suc i)
  have j: "random_index rnd k (Suc i) < length arr"
    using random_index_le [OF Suc.prems(1), of k "Suc i"] Suc.prems(2) by simp
  have "mset (fst (shuffle rnd i (swap arr (Suc i) (random_index rnd k (Suc i))) (Suc k)))
        = mset (swap arr (Suc i) (random_index rnd k (Suc i)))"
    using Suc.prems by (intro Suc.IH) simp_all
  also have "\<dots> = mset arr"
    using Suc.prems(2) j by (rule mset_swap_arr)
  finally show ?case
    by (simp add: Let_def)
qed

lemma mset_shuffle_pred:
  "unit_source rnd \<Longrightarrow> length arr = n \<Longrightarrow> mset (fst (shuffle rnd (n - 1) arr k)) = mset arr"
  by (cases n) (simp_all add: mset_shuffle)

lemma every_moved_iff: "every_moved arr \<longleftrightarrow> (\<forall>i<length arr. arr ! i \<noteq> i)"
  by (simp add: every_moved_def list_all_length)

lemma is_derangement_mset:
  "mset perm = mset [0..<n] \<Longrightarrow> every_moved perm \<Longrightarrow> is_derangement n perm"
proof -
  assume m: "mset perm = mset [0..<n]" and e: "every_moved perm"
  have l: "length perm = n"
    using mset_eq_length [OF m] by simp
  have s: "set perm = {0..<n}"
    using mset_eq_setD [OF m] by simp
  have d: "distinct perm"
    using mset_eq_imp_distinct_iff [OF m] by simp
  show ?thesis
    using l s d e by (simp add: is_derangement_def every_moved_iff)
qed

lemma derangement_loop_sound:
  "unit_source rnd \<Longrightarrow> mset arr = mset [0..<n] \<Longrightarrow> tries \<le> 2000 \<Longrightarrow>
   (case derangement_loop rnd n arr tries k of
      (Inl e, a) \<Rightarrow> e = Error ''Failed to create derangement'' \<and> a = 2000
    | (Inr perm, a) \<Rightarrow> is_derangement n perm \<and> a \<le> 2000)"
proof (induction rnd n arr tries k rule: derangement_loop.induct)
  case (1 rnd n arr tries k)
  show ?case
  proof (cases "tries < 2000")
    case False
    with "1.prems" show ?thesis
      by (subst derangement_loop.simps) simp
  next
    case True
    obtain arr' k' where sh: "shuffle rnd (n - 1) arr k = (arr', k')"
      by (cases "shuffle rnd (n - 1) arr k")
    have len: "length arr = n"
      using mset_eq_length [OF "1.prems"(2)] by simp
    have m: "mset arr' = mset [0..<n]"
      using mset_shuffle_pred [OF "1.prems"(1) len, of k] sh "1.prems"(2) by simp
    show ?thesis
    proof (cases "every_moved arr'")
      case e: True
      have "is_derangement n arr'"
        using m e by (rule is_derangement_mset)
      with True sh e show ?thesis
        by (subst derangement_loop.simps) simp
    next
      case e: False
      have "case derangement_loop rnd n arr' (Suc tries) k' of
              (Inl e, a) \<Rightarrow> e = Error ''Failed to create derangement'' \<and> a = 2000
            | (Inr perm, a) \<Rightarrow> is_derangement n perm \<and> a \<le> 2000"
        using True sh [symmetric] e "1.prems"(1) m
        by (intro "1.IH") simp_all
      with True sh e show ?thesis
        by (subst derangement_loop.simps) simp
    qed
  qed
qed

lemma derangement_loop_one:
  "tries \<le> 2000 \<Longrightarrow>
   derangement_loop rnd (Suc 0) [0] tries k
   = (Inl (Error ''Failed to create derangement''), 2000)"
proof (induction d \<equiv> "2000 - tries" arbitrary: tries k)
  case 0
  then show ?case
    by (subst derangement_loop.simps) simp
next
  case (Suc d)
  have t: "tries < 2000"
    using Suc.hyps(2) by arith
  have "derangement_loop rnd (Suc 0) [0] (Suc tries) k
        = (Inl (Error ''Failed to create derangement''), 2000)"
    using Suc.hyps(2) t by (intro Suc.hyps(1)) simp_all
  with t show ?case
    by (subst derangement_loop.simps) (simp add: every_moved_def)
qed

lemma derangement_loop_half:
  "tries \<le> 2000 \<Longrightarrow>
   derangement_loop half_source 2 [0, Suc 0] tries k
   = (Inl (Error ''Failed to create derangement''), 2000)"
proof (induction d \<equiv> "2000 - tries" arbitrary: tries k)
  case 0
  then show ?case
    by (subst derangement_loop.simps) simp
next
  case (Suc d)
  have t: "tries < 2000"
    using Suc.hyps(2) by arith
  have "derangement_loop half_source 2 [0, Suc 0] (Suc tries) (Suc k)
        = (Inl (Error ''Failed to create derangement''), 2000)"
    using Suc.hyps(2) t by (intro Suc.hyps(1)) simp_all
  with t show ?case
    by (subst derangement_loop.simps)
      (simp add: every_moved_def random_index_def half_source_def swap_def)
qed

lemma upt2: "[0..<2] = [0, Suc 0]"
  by (simp add: upt_rec)

lemma derangement_run_zero_2: "derangement_run zero_source 2 = (Inr [Suc 0, 0], Suc 0)"
  unfolding derangement_run_def upt2
  by (subst derangement_loop.simps)
    (simp add: every_moved_def random_index_def zero_source_def swap_def)

lemma derangement_run_half_2:
  "derangement_run half_source 2 = (Inl (Error ''Failed to create derangement''), 2000)"
  unfolding derangement_run_def upt2
  by (rule derangement_loop_half) simp

lemma derangement_run_one:
  "derangement_run rnd (Suc 0) = (Inl (Error ''Failed to create derangement''), 2000)"
  unfolding derangement_run_def
  by (simp add: derangement_loop_one)

lemma derangement_run_sound:
  assumes "unit_source rnd"
  shows "case derangement_run rnd n of
      (Inl e, a) \<Rightarrow> e = Error ''Failed to create derangement'' \<and> a = 2000
    | (Inr perm, a) \<Rightarrow> is_derangement n perm \<and> a \<le> 2000"
  unfolding derangement_run_def
  by (rule derangement_loop_sound [OF assms]) simp_all

text \<open>
  Claim C5: \<open>derangement(1)\<close> fails for every behaviour of the random source: it throws
  the explicit error when the budget of 2000 attempts is used up and returns no value.
\<close>

theorem derangement_one_fails:
  "derangement rnd 1 = Inl (Error ''Failed to create derangement'')
   \<and> derangement_attempts rnd 1 = 2000"
  by (simp add: derangement_def derangement_attempts_def derangement_run_one)

text \<open>
  Claim C7: \<open>derangement(0)\<close> returns the empty sequence for every behaviour of the
  random source, without an error.
\<close>

theorem derangement_zero_empty: "derangement rnd 0 = Inr []"
  unfolding derangement_def derangement_run_def
  by (subst derangement_loop.simps) (simp add: every_moved_def)

text \<open>
  Claim C6: for every \<open>n\<close>, \<open>derangement(n)\<close> makes at most 2000 attempts and ends
  (the loop is a total function, its measure is \<open>2000 - tries\<close>) either with the
  explicit error or with a valid derangement of \<open>[0, n)\<close>; nothing else is returned.
\<close>

theorem derangement_bounded:
  "unit_source rnd \<Longrightarrow>
   derangement_attempts rnd n \<le> 2000 \<and>
   (derangement rnd n = Inl (Error ''Failed to create derangement'')
    \<or> (\<exists>perm. derangement rnd n = Inr perm \<and> is_derangement n perm))"
  using derangement_run_sound [of rnd n]
  by (auto simp: derangement_def derangement_attempts_def split: prod.splits sum.splits)

theorem derangement_bounded_witness:
  "unit_source zero_source \<and> derangement_attempts zero_source 2 \<le> 2000 \<and>
   (derangement zero_source 2 = Inl (Error ''Failed to create derangement'')
    \<or> (\<exists>perm. derangement zero_source 2 = Inr perm \<and> is_derangement 2 perm))"
  using derangement_bounded [OF unit_source_zero, of 2] unit_source_zero by simp

text \<open>
  Claim C1, as stated, fails: with two elements and a random source whose every draw
  is \<open>1/2\<close>, each shuffle draws \<open>j = 1 = i\<close>, the array stays \<open>[0, 1]\<close>, all 2000
  attempts fail the check and the function throws instead of returning.
\<close>

theorem derangement_exhausted: "derangement half_source 2 = Inl (Error ''Failed to create derangement'')"
  by (simp add: derangement_def derangement_run_half_2)

text \<open>
  Claim C1, amended: for every \<open>n \<ge> 2\<close> and every behaviour of the random source,
  \<open>derangement(n)\<close> either throws the explicit error after 2000 failed attempts or
  returns a permutation of the integers \<open>[0, n)\<close> with \<open>perm[i] \<noteq> i\<close> for every index.
\<close>

theorem derangement_returns_valid:
  "unit_source rnd \<Longrightarrow> 2 \<le> n \<Longrightarrow>
   (derangement rnd n = Inl (Error ''Failed to create derangement'')
      \<and> derangement_attempts rnd n = 2000)
   \<or> (\<exists>perm. derangement rnd n = Inr perm \<and> length perm = n \<and> distinct perm
        \<and> set perm = {0..<n} \<and> (\<forall>i<n. perm ! i \<noteq> i))"
  using derangement_run_sound [of rnd n]
  by (auto simp: derangement_def derangement_attempts_def is_derangement_def
      split: prod.splits sum.splits)

theorem derangement_returns_valid_witness:
  "unit_source zero_source \<and> (2::nat) \<le> 2 \<and> derangement zero_source 2 = Inr [1, 0]
   \<and> length [1, 0::nat] = 2 \<and> distinct [1, 0::nat] \<and> set [1, 0::nat] = {0..<2}
   \<and> [1, 0::nat] ! 0 \<noteq> 0 \<and> [1, 0::nat] ! 1 \<noteq> 1"
  using derangement_returns_valid [OF unit_source_zero, of 2] unit_source_zero
  by (simp add: derangement_def derangement_run_zero_2)

section \<open>Properties of the token registry\<close>

lemma ensureDataDirAndSeed_eq:
  "ensureDataDirAndSeed s = s\<lparr>dataDir_exists := True, colleagues_json := Some (listed s)\<rparr>"
  by (cases s) (simp add: ensureDataDirAndSeed_def listed_def split: option.splits)

lemma ensureState_eq: "ensureState s = s\<lparr>state_json := Some (issued s)\<rparr>"
  by (cases s) (auto simp add: ensureState_def issued_def split: option.splits)

lemma load_eq:
  "loadColleaguesWithTokens uuids s =
     (Inr (map (with_token (fst (ensure_tokens uuids (listed s) (issued s) 0))) (listed s)),
      s\<lparr>dataDir_exists := True, colleagues_json := Some (listed s),
        state_json := Some (fst (ensure_tokens uuids (listed s) (issued s) 0))\<rparr>)"
  by (simp add: loadColleaguesWithTokens_def ensureDataDirAndSeed_eq ensureState_eq Let_def
      issued_def)

lemma property_update_other: "q \<noteq> n \<Longrightarrow> property (tokens(q \<mapsto> u)) n = property tokens n"
  by (simp add: property_def)

lemma property_update_same: "property (tokens(q \<mapsto> u)) q = Str u"
  by (simp add: property_def)

lemma ensure_tokens_keeps:
  "\<not> falsy (property tokens n) \<Longrightarrow> fst (ensure_tokens uuids list tokens k) n = tokens n"
proof (induction list arbitrary: tokens k)
  case Nil
  then show ?case by simp
next
  case (Cons q list)
  show ?case
  proof (cases "falsy (property tokens (name q))")
    case False
    with Cons show ?thesis by simp
  next
    case True
    with Cons.prems have d: "name q \<noteq> n"
      by auto
    then have "\<not> falsy (property (tokens(name q \<mapsto> uuids k)) n)"
      using Cons.prems by (simp add: property_update_other)
    then have "fst (ensure_tokens uuids list (tokens(name q \<mapsto> uuids k)) (Suc k)) n
               = (tokens(name q \<mapsto> uuids k)) n"
      by (rule Cons.IH)
    with True d show ?thesis by simp
  qed
qed

lemma ensure_tokens_keeps_property:
  "\<not> falsy (property tokens n) \<Longrightarrow>
   property (fst (ensure_tokens uuids list tokens k)) n = property tokens n"
  using ensure_tokens_keeps [of tokens n uuids list k] by (simp add: property_def)

lemma ensure_tokens_truthy:
  "truthy_uuids uuids \<Longrightarrow> p \<in> set list \<Longrightarrow>
   \<not> falsy (property (fst (ensure_tokens uuids list tokens k)) (name p))"
proof (induction list arbitrary: tokens k)
  case Nil
  then show ?case by simp
next
  case (Cons q list)
  show ?case
  proof (cases "p = q")
    case False
    with Cons show ?thesis by simp
  next
    case True
    have t: "\<not> falsy (property (tokens(name q \<mapsto> uuids k)) (name q))"
      using Cons.prems(1) by (simp add: truthy_uuids_def property_update_same)
    have "\<not> falsy (property (fst (ensure_tokens uuids list (tokens(name q \<mapsto> uuids k)) (Suc k)))
                  (name q))"
      using t ensure_tokens_keeps_property [OF t, of uuids list "Suc k"] by simp
    then show ?thesis
      using True by (simp add: ensure_tokens_keeps_property)
  qed
qed

lemma ensure_tokens_noop:
  "\<forall>p\<in>set list. \<not> falsy (property tokens (name p)) \<Longrightarrow>
   ensure_tokens uuids list tokens k = (tokens, k)"
  by (induction list arbitrary: tokens k) auto

lemma ensure_tokens_distinct:
  "distinct_tokens tokens \<Longrightarrow> \<forall>i j. uuids i = uuids j \<longrightarrow> i = j \<Longrightarrow>
   \<forall>j\<ge>k. \<forall>n. tokens n \<noteq> Some (uuids j) \<Longrightarrow>
   distinct_tokens (fst (ensure_tokens uuids list tokens k))"
proof (induction list arbitrary: tokens k)
  case Nil
  then show ?case by simp
next
  case (Cons q list)
  show ?case
  proof (cases "falsy (property tokens (name q))")
    case False
    with Cons show ?thesis by simp
  next
    case True
    let ?t = "tokens(name q \<mapsto> uuids k)"
    have d: "distinct_tokens ?t"
      using Cons.prems(1,3) unfolding distinct_tokens_def
      by (auto split: if_splits)
    have f: "\<forall>j\<ge>Suc k. \<forall>n. ?t n \<noteq> Some (uuids j)"
    proof (intro allI impI)
      fix j n
      assume j: "Suc k \<le> j"
      have "uuids j = uuids k \<Longrightarrow> j = k"
        using Cons.prems(2) by blast
      with j have "uuids j \<noteq> uuids k"
        by auto
      moreover have "tokens n \<noteq> Some (uuids j)"
        using Cons.prems(3) j by simp
      ultimately show "?t n \<noteq> Some (uuids j)"
        by simp
    qed
    have "distinct_tokens (fst (ensure_tokens uuids list ?t (Suc k)))"
      using d Cons.prems(2) f by (rule Cons.IH)
    with True show ?thesis by simp
  qed
qed

lemma listed_loaded [simp]:
  "listed (s\<lparr>dataDir_exists := d, colleagues_json := Some list, state_json := t\<rparr>) = list"
  by (simp add: listed_def)

lemma issued_loaded [simp]:
  "issued (s\<lparr>dataDir_exists := d, colleagues_json := c, state_json := Some tokens\<rparr>) = tokens"
  by (simp add: issued_def)

lemma load_again:
  assumes "truthy_uuids uuids" "loadColleaguesWithTokens uuids s = (Inr people, s1)"
  shows "loadColleaguesWithTokens uuids' s1 = (Inr people, s1)"
proof -
  let ?T = "fst (ensure_tokens uuids (listed s) (issued s) 0)"
  have p: "people = map (with_token ?T) (listed s)"
    and s1: "s1 = s\<lparr>dataDir_exists := True, colleagues_json := Some (listed s),
                    state_json := Some ?T\<rparr>"
    using assms(2) by (simp_all add: load_eq)
  have "\<forall>p\<in>set (listed s). \<not> falsy (property ?T (name p))"
    using assms(1) by (simp add: ensure_tokens_truthy)
  then have "ensure_tokens uuids' (listed s) ?T 0 = (?T, 0)"
    by (rule ensure_tokens_noop)
  then show ?thesis
    by (simp add: load_eq p s1)
qed

lemma token_with_token [simp]: "token (with_token tokens p) = property tokens (name p)"
  by (simp add: with_token_def)

lemma name_with_token [simp]: "name (with_token tokens p) = name p"
  by (simp add: with_token_def)

lemma load_names:
  "loadColleaguesWithTokens uuids s = (Inr people, s1) \<Longrightarrow>
   map name people = map name (listed s)"
  by (auto simp add: load_eq)

lemma load_tokens:
  assumes "truthy_uuids uuids" "loadColleaguesWithTokens uuids s = (Inr people, s1)"
    and "p \<in> set people"
  shows "token p = property (issued s1) (name p)" and "\<not> falsy (token p)"
proof -
  let ?T = "fst (ensure_tokens uuids (listed s) (issued s) 0)"
  have p: "people = map (with_token ?T) (listed s)"
    and s1: "s1 = s\<lparr>dataDir_exists := True, colleagues_json := Some (listed s),
                    state_json := Some ?T\<rparr>"
    using assms(2) by (simp_all add: load_eq)
  obtain q where q: "q \<in> set (listed s)" "p = with_token ?T q"
    using assms(3) p by auto
  have t: "\<not> falsy (property ?T (name q))"
    using assms(1) q(1) by (rule ensure_tokens_truthy)
  show "token p = property (issued s1) (name p)"
    using q(2) by (simp add: s1)
  show "\<not> falsy (token p)"
    using t q(2) by simp
qed

lemma property_Inherited: "property tokens n = Inherited m \<Longrightarrow> m = n"
  by (auto simp add: property_def split: option.splits if_splits)

lemma property_Str: "property tokens n = Str t \<longleftrightarrow> tokens n = Some t"
  by (auto simp add: property_def split: option.splits)

lemma property_not_EmptyObject [simp]: "property tokens n \<noteq> EmptyObject"
  by (auto simp add: property_def split: option.splits)

lemma load_distinct:
  assumes "truthy_uuids uuids" "unique_uuids uuids (issued s)" "distinct_tokens (issued s)"
    and "loadColleaguesWithTokens uuids s = (Inr people, s1)"
    and "p \<in> set people" "q \<in> set people" "name p \<noteq> name q"
  shows "token p \<noteq> token q"
proof
  assume e: "token p = token q"
  let ?T = "fst (ensure_tokens uuids (listed s) (issued s) 0)"
  have s1: "s1 = s\<lparr>dataDir_exists := True, colleagues_json := Some (listed s),
                    state_json := Some ?T\<rparr>"
    using assms(4) by (simp add: load_eq)
  have "distinct_tokens ?T"
    using assms(2,3) by (intro ensure_tokens_distinct) (simp_all add: unique_uuids_def)
  then have d: "distinct_tokens (issued s1)"
    by (simp add: s1)
  have tp: "token p = property (issued s1) (name p)" "\<not> falsy (token p)"
    and tq: "token q = property (issued s1) (name q)"
    using load_tokens [OF assms(1,4,5)] load_tokens(1) [OF assms(1,4,6)] by blast+
  show False
  proof (cases "token p")
    case Undefined
    with tp(2) show False by simp
  next
    case (Str t)
    then have "issued s1 (name p) = Some t" "issued s1 (name q) = Some t" "t \<noteq> []"
      using tp tq e by (simp_all add: property_Str [symmetric])
    with d have "name p = name q"
      unfolding distinct_tokens_def by blast
    with assms(7) show False by simp
  next
    case (Inherited m)
    then have "m = name p" "m = name q"
      using tp(1) tq e property_Inherited [of "issued s1"] by metis+
    with assms(7) show False by simp
  next
    case EmptyObject
    with tp(1) show False
      using property_not_EmptyObject [of "issued s1" "name p"] by simp
  qed
qed

lemma load_keeps:
  assumes "loadColleaguesWithTokens uuids s = (r, s1)" "\<not> falsy (property (issued s) n)"
  shows "property (issued s1) n = property (issued s) n"
  using assms ensure_tokens_keeps_property [OF assms(2), of uuids "listed s" 0]
  by (auto simp add: load_eq)

text \<open>
  Claim C8: the token of a name is stable. A load returns every listed colleague, in the
  order of the list, with the token that the state it leaves holds for the name; a second
  load against that state returns the same participants, token by token, and leaves
  the state as it is; two listed names that differ have different tokens; and a name that
  has a token keeps it in any load, whatever \<open>randomUUID()\<close> returns.
\<close>

theorem token_stability:
  assumes "truthy_uuids uuids" "unique_uuids uuids (issued s)" "distinct_tokens (issued s)"
    and "loadColleaguesWithTokens uuids s = (Inr people, s1)"
  shows "loadColleaguesWithTokens uuids' s1 = (Inr people, s1)
    \<and> map name people = map name (listed s)
    \<and> (\<forall>p\<in>set people. \<forall>q\<in>set people. name p \<noteq> name q \<longrightarrow> token p \<noteq> token q)
    \<and> (\<forall>p\<in>set people. token p = property (issued s1) (name p) \<and> \<not> falsy (token p))
    \<and> (\<forall>n r s2. \<not> falsy (property (issued s) n)
           \<and> loadColleaguesWithTokens uuids' s = (r, s2)
         \<longrightarrow> property (issued s2) n = property (issued s) n)"
proof (intro conjI ballI allI impI)
  show "loadColleaguesWithTokens uuids' s1 = (Inr people, s1)"
    using assms(1,4) by (rule load_again)
next
  show "map name people = map name (listed s)"
    using assms(4) by (rule load_names)
next
  fix p q
  assume "p \<in> set people" "q \<in> set people" "name p \<noteq> name q"
  then show "token p \<noteq> token q"
    using assms by (intro load_distinct [of uuids s people s1 p q])
next
  fix p
  assume "p \<in> set people"
  then show "token p = property (issued s1) (name p)" "\<not> falsy (token p)"
    using load_tokens [OF assms(1,4)] by blast+
next
  fix n r s2
  assume "\<not> falsy (property (issued s) n) \<and> loadColleaguesWithTokens uuids' s = (r, s2)"
  then show "property (issued s2) n = property (issued s) n"
    using load_keeps [of uuids' s r s2 n] by simp
qed

lemma truthy_uuid_source: "truthy_uuids uuid_source"
  by (simp add: truthy_uuids_def uuid_source_def)

lemma unique_uuid_source: "unique_uuids uuid_source Map.empty"
  by (simp add: unique_uuids_def uuid_source_def)

lemma distinct_tokens_empty: "distinct_tokens Map.empty"
  by (simp add: distinct_tokens_def)

lemma issued_first_start [simp]: "issued (first_start seed) = Map.empty"
  by (simp add: issued_def first_start_def)

lemma listed_first_start [simp]: "listed (first_start seed) = seed"
  by (simp add: listed_def first_start_def)

lemma not_prototype_members:
  "''Alice'' \<notin> set prototype_members" "''Bob'' \<notin> set prototype_members"
  "''Carol'' \<notin> set prototype_members"
  by (simp_all add: prototype_members_def)

lemma load_first_start:
  "loadColleaguesWithTokens uuid_source (first_start [alice, bob])
   = (Inr alice_bob, started [alice, bob] issued_ab)"
  by (simp add: load_eq alice_def bob_def property_def not_prototype_members uuid_source_def
      with_token_def alice_bob_def started_def first_start_def listed_def issued_def
      issued_ab_def)

theorem token_stability_witness:
  "truthy_uuids uuid_source \<and> unique_uuids uuid_source (issued (first_start [alice, bob]))
   \<and> distinct_tokens (issued (first_start [alice, bob]))
   \<and> loadColleaguesWithTokens uuid_source (first_start [alice, bob])
       = (Inr alice_bob, started [alice, bob] issued_ab)
   \<and> loadColleaguesWithTokens uuid_source (started [alice, bob] issued_ab)
       = (Inr alice_bob, started [alice, bob] issued_ab)
   \<and> map name alice_bob = map name (listed (first_start [alice, bob]))
   \<and> token (alice_bob ! 0) \<noteq> token (alice_bob ! 1)
   \<and> token (alice_bob ! 0) = property (issued (started [alice, bob] issued_ab)) (name (alice_bob ! 0))"
proof -
  have h: "truthy_uuids uuid_source"
    "unique_uuids uuid_source (issued (first_start [alice, bob]))"
    "distinct_tokens (issued (first_start [alice, bob]))"
    by (simp_all add: truthy_uuid_source unique_uuid_source distinct_tokens_empty)
  have n: "name (alice_bob ! 0) \<noteq> name (alice_bob ! 1)"
    by (simp add: alice_bob_def)
  have m: "alice_bob ! 0 \<in> set alice_bob" "alice_bob ! 1 \<in> set alice_bob"
    by (simp_all add: alice_bob_def)
  show ?thesis
    using token_stability [OF h load_first_start, of uuid_source] h load_first_start n m
    by blast
qed

text \<open>
  A colleague whose name is a property of \<open>Object.prototype\<close> is issued no UUID: the
  read of the name is truthy from the start, the token is the inherited member, and the
  file keeps no entry for the name.
\<close>

lemma load_prototype_name:
  "loadColleaguesWithTokens uuids
     (first_start [\<lparr>name = ''constructor'', birthday = b, anniversary = a\<rparr>])
   = (Inr [\<lparr>name = ''constructor'', birthday = b, anniversary = a,
            token = Inherited ''constructor''\<rparr>],
      started [\<lparr>name = ''constructor'', birthday = b, anniversary = a\<rparr>] Map.empty)"
  by (simp add: load_eq property_def prototype_members_def with_token_def started_def
      first_start_def listed_def issued_def)

section \<open>Properties of the assignment rows\<close>


lemma length_build_rows [simp]: "length (build_rows people perm) = length people"
  by (simp add: build_rows_def)

lemma giver_tokens_build_rows:
  "map giver_token (build_rows people perm) = map token people"
proof -
  have "map giver_token (build_rows people perm)
        = map token (map (\<lambda>i. people ! i) [0..<length people])"
    by (simp add: build_rows_def Let_def)
  then show ?thesis
    by (simp only: map_nth)
qed










section \<open>Properties of the store\<close>

lemma ensureDataDirAndSeed_loaded:
  "loaded_with list tokens s \<Longrightarrow> ensureDataDirAndSeed s = s"
  by (cases s) (simp add: ensureDataDirAndSeed_def loaded_with_def)

lemma load_loaded:
  assumes "loaded_with list tokens s"
  shows "loadColleaguesWithTokens uuids s = (Inr (map (with_token tokens) list), s)"
proof -
  have l: "listed s = list" and i: "issued s = tokens"
    using assms by (simp_all add: loaded_with_def listed_def issued_def)
  have "ensure_tokens uuids list tokens 0 = (tokens, 0)"
    using assms by (intro ensure_tokens_noop) (simp add: loaded_with_def)
  moreover have "s\<lparr>dataDir_exists := True, colleagues_json := Some list,
                   state_json := Some tokens\<rparr> = s"
    using assms by (cases s) (simp add: loaded_with_def)
  ultimately show ?thesis
    by (simp add: load_eq l i)
qed

lemma loaded_after_load:
  assumes "truthy_uuids uuids" "loadColleaguesWithTokens uuids s = (Inr people, s1)"
  shows "\<exists>tokens. loaded_with (listed s) tokens s1 \<and> people = map (with_token tokens) (listed s)"
proof -
  let ?T = "fst (ensure_tokens uuids (listed s) (issued s) 0)"
  have p: "people = map (with_token ?T) (listed s)"
    and s1: "s1 = s\<lparr>dataDir_exists := True, colleagues_json := Some (listed s),
                    state_json := Some ?T\<rparr>"
    using assms(2) by (simp_all add: load_eq)
  have "\<forall>p\<in>set (listed s). \<not> falsy (property ?T (name p))"
    using assms(1) by (simp add: ensure_tokens_truthy)
  then have "loaded_with (listed s) ?T s1"
    by (simp add: loaded_with_def s1)
  with p show ?thesis by blast
qed

lemma load_store:
  assumes "loadColleaguesWithTokens uuids s = (r, s1)"
  shows "hasSupabase s1 = hasSupabase s" "assignments_json s1 = assignments_json s"
    "assignments_table s1 = assignments_table s" "derangement_calls s1 = derangement_calls s"
  using assms by (auto simp add: load_eq)

lemma getByToken_cong:
  "hasSupabase s' = hasSupabase s \<Longrightarrow> assignments_json s' = assignments_json s \<Longrightarrow>
   assignments_table s' = assignments_table s \<Longrightarrow> getByToken e t s' = getByToken e t s"
  by (cases e) (simp_all add: getByToken_def readLocalAssignments_def)

lemma getAllAssignments_cong:
  "hasSupabase s' = hasSupabase s \<Longrightarrow> assignments_json s' = assignments_json s \<Longrightarrow>
   assignments_table s' = assignments_table s \<Longrightarrow>
   getAllAssignments e s' = getAllAssignments e s"
  by (cases e) (simp_all add: getAllAssignments_def readLocalAssignments_def)

lemma getByToken_load:
  "loadColleaguesWithTokens uuids s = (r, s1) \<Longrightarrow> getByToken e t s1 = getByToken e t s"
  by (rule getByToken_cong) (simp_all add: load_store)

lemma getByToken_error:
  "getByToken None t s = None \<Longrightarrow> getByToken e t s = None"
  by (cases e) (auto simp add: getByToken_def split: if_splits)

lemma getByToken_local:
  "\<not> hasSupabase s \<Longrightarrow> getByToken e t s = getByToken None t s"
  by (simp add: getByToken_def)

lemma tokenToIndex_None: "tokenToIndex people t = None \<longleftrightarrow> t \<notin> set (map token people)"
proof -
  have "map fst (zip (map token people) [0..<length people]) = map token people"
    by (simp add: map_fst_zip)
  then have "fst ` set (zip (map token people) [0..<length people]) = set (map token people)"
    by (metis set_map)
  then show ?thesis
    by (simp add: tokenToIndex_def map_of_eq_None_iff)
qed

lemma keys_upsert_row:
  "map giver_token (upsert_row r tbl) =
     (if giver_token r \<in> set (map giver_token tbl) then map giver_token tbl
      else map giver_token tbl @ [giver_token r])"
proof -
  have "map (\<lambda>x. giver_token (if giver_token x = giver_token r then r else x)) tbl
        = map giver_token tbl"
    by (rule map_cong) auto
  then show ?thesis
    by (simp add: upsert_row_def comp_def)
qed

lemma keys_fold_upsert:
  "set (map giver_token (fold upsert_row rows tbl))
     = set (map giver_token tbl) \<union> set (map giver_token rows)"
proof (induction rows arbitrary: tbl)
  case Nil
  then show ?case by simp
next
  case (Cons r rows)
  have "set (map giver_token (upsert_row r tbl)) = insert (giver_token r) (set (map giver_token tbl))"
    by (auto simp add: keys_upsert_row)
  then show ?case
    by (simp add: Cons.IH del: set_map)
qed

lemma distinct_fold_upsert:
  "distinct (map giver_token tbl) \<Longrightarrow> distinct (map giver_token (fold upsert_row rows tbl))"
proof (induction rows arbitrary: tbl)
  case Nil
  then show ?case by simp
next
  case (Cons r rows)
  have "distinct (map giver_token (upsert_row r tbl))"
    using Cons.prems by (simp add: keys_upsert_row)
  then show ?case
    by (simp add: Cons.IH)
qed

lemma filter_key_single:
  "distinct (map f xs) \<Longrightarrow> t \<in> set (map f xs) \<Longrightarrow> \<exists>r. filter (\<lambda>x. f x = t) xs = [r]"
proof (induction xs)
  case Nil
  then show ?case by simp
next
  case (Cons x xs)
  show ?case
  proof (cases "f x = t")
    case True
    have "f y \<noteq> t" if "y \<in> set xs" for y
    proof
      assume "f y = t"
      with True that have "f x \<in> f ` set xs"
        by (metis imageI)
      with Cons.prems(1) show False
        by simp
    qed
    then have "filter (\<lambda>x. f x = t) xs = []"
      by (simp add: filter_empty_conv)
    with True show ?thesis by simp
  next
    case False
    with Cons show ?thesis by auto
  qed
qed

lemma giver_token_written [simp]: "giver_token (written r) = json (giver_token r)"
  by (simp add: written_def)

lemma written_keeps_key:
  assumes "Str t \<in> set (map giver_token rows)"
  shows "Str t \<in> set (map giver_token (map written rows))"
proof -
  obtain r where "r \<in> set rows" "giver_token r = Str t"
    using assms by auto
  then have "written r \<in> set (map written rows)" "giver_token (written r) = Str t"
    by simp_all
  then show ?thesis
    by (metis image_eqI list.set_map)
qed

lemma getByToken_saved:
  assumes "hasSupabase s \<Longrightarrow> table_keyed s" "saveAssignments err rows s = Inr s2"
    and "Str t \<in> set (map giver_token rows)"
  shows "getByToken None t s2 \<noteq> None"
proof (cases "hasSupabase s")
  case False
  then have "getByToken None t s2 = find (\<lambda>r. giver_token r = Str t) (map written rows)"
    using assms(2)
    by (auto simp add: saveAssignments_def getByToken_def readLocalAssignments_def
        ensureDataDirAndSeed_eq)
  moreover have "\<exists>x. x \<in> set (map written rows) \<and> giver_token x = Str t"
    using written_keeps_key [OF assms(3)] by auto
  ultimately show ?thesis
    by (simp only: find_None_iff) blast
next
  case True
  let ?tbl = "fold upsert_row (map written rows) (assignments_table s)"
  have s2: "s2 = s\<lparr>assignments_table := ?tbl\<rparr>"
    using assms(2) True
    by (auto simp add: saveAssignments_def upsert_def split: if_splits option.splits)
  have "distinct (map giver_token ?tbl)"
    using assms(1) [OF True] by (simp add: table_keyed_def distinct_fold_upsert)
  moreover have "Str t \<in> set (map giver_token ?tbl)"
    using written_keeps_key [OF assms(3)] by (simp only: keys_fold_upsert) simp
  ultimately obtain r where "filter (\<lambda>x. giver_token x = Str t) ?tbl = [r]"
    using filter_key_single [of giver_token ?tbl "Str t"] by auto
  then show ?thesis
    using True by (simp add: getByToken_def s2)
qed

lemma saveAssignments_loaded:
  "loaded_with list tokens s \<Longrightarrow> saveAssignments err rows s = Inr s2 \<Longrightarrow>
   loaded_with list tokens s2"
proof (cases "hasSupabase s")
  case True
  assume "loaded_with list tokens s" "saveAssignments err rows s = Inr s2"
  with True show ?thesis
    by (auto simp add: saveAssignments_def loaded_with_def split: sum.splits option.splits)
next
  case False
  assume l: "loaded_with list tokens s" and "saveAssignments err rows s = Inr s2"
  with False have "s2 = s\<lparr>assignments_json := Some (map written rows)\<rparr>"
    by (simp add: saveAssignments_def ensureDataDirAndSeed_loaded [OF l])
  with l show ?thesis
    by (simp add: loaded_with_def)
qed

lemma saveAssignments_calls:
  "saveAssignments err rows s = Inr s2 \<Longrightarrow> derangement_calls s2 = derangement_calls s"
proof (cases "hasSupabase s")
  case True
  assume "saveAssignments err rows s = Inr s2"
  with True show ?thesis
    by (auto simp add: saveAssignments_def split: sum.splits option.splits)
next
  case False
  assume "saveAssignments err rows s = Inr s2"
  with False show ?thesis
    by (auto simp add: saveAssignments_def ensureDataDirAndSeed_eq)
qed

section \<open>Properties of the request handlers\<close>

lemma assign_400:
  "falsy_body body_token \<Longrightarrow>
   assign supa uuids rnd body_token s = (Status 400 ''token required'', s)"
  by (simp add: assign_def)

lemma assign_404_other:
  assumes "loadColleaguesWithTokens uuids s = (Inr people, s0)"
  shows "assign supa uuids rnd (Other True) s = (Status 404 ''invalid token'', s0)"
  using assms by (simp add: assign_def)

lemma assign_404:
  assumes "loadColleaguesWithTokens uuids s = (Inr people, s0)" "tok \<noteq> []"
    and "Str tok \<notin> set (map token people)"
  shows "assign supa uuids rnd (Text tok) s = (Status 404 ''invalid token'', s0)"
proof -
  have "tokenToIndex people (Str tok) = None"
    using assms(3) by (simp add: tokenToIndex_None)
  then show ?thesis
    using assms(1,2) by (simp add: assign_def)
qed

lemma assign_existing:
  assumes "loadColleaguesWithTokens uuids s = (Inr people, s0)" "tok \<noteq> []"
    and "Str tok \<in> set (map token people)" "getByToken (supa 0) tok s0 = Some row"
  shows "assign supa uuids rnd (Text tok) s = (respond (supa 1) people tok s0, s0)"
proof -
  obtain idx where "tokenToIndex people (Str tok) = Some idx"
    using assms(3) tokenToIndex_None [of people "Str tok"]
    by (cases "tokenToIndex people (Str tok)") auto
  then show ?thesis
    using assms(1,2,4) by (simp add: assign_def)
qed

lemma assign_generate:
  assumes "loadColleaguesWithTokens uuids s = (Inr people, s0)" "tok \<noteq> []"
    and "Str tok \<in> set (map token people)" "getByToken (supa 0) tok s0 = None"
  shows "assign supa uuids rnd (Text tok) s =
           (case generate (supa 1) rnd people s0 of
              (Some e, s2) \<Rightarrow> (InternalError (message e), s2)
            | (None, s2) \<Rightarrow> (respond (supa 2) people tok s2, s2))"
proof -
  obtain idx where "tokenToIndex people (Str tok) = Some idx"
    using assms(3) tokenToIndex_None [of people "Str tok"]
    by (cases "tokenToIndex people (Str tok)") auto
  then show ?thesis
    using assms(1,2,4) by (simp add: assign_def)
qed

lemma generate_calls:
  "generate err rnd people s = (e, s2) \<Longrightarrow> derangement_calls s2 = Suc (derangement_calls s)"
  by (auto simp add: generate_def Let_def saveAssignments_calls split: sum.splits)

lemma generate_None:
  assumes "generate err rnd people s = (None, s2)"
  shows "\<exists>rows. buildAssignments rnd people = Inr rows
           \<and> saveAssignments err rows (s\<lparr>derangement_calls := Suc (derangement_calls s)\<rparr>)
               = Inr s2"
  using assms by (auto simp add: generate_def Let_def split: sum.splits)

lemma giver_tokens_buildAssignments:
  "buildAssignments rnd people = Inr rows \<Longrightarrow> map giver_token rows = map token people"
  by (auto simp add: buildAssignments_def giver_tokens_build_rows split: sum.splits)

lemma generate_single:
  "generate err rnd [p] s =
     (Some (Error ''Failed to create derangement''),
      s\<lparr>derangement_calls := Suc (derangement_calls s)\<rparr>)"
  by (simp add: generate_def buildAssignments_def derangement_def derangement_run_one)

lemma assign_single:
  assumes "loadColleaguesWithTokens uuids s = (Inr [p], s0)" "token p = Str tok" "tok \<noteq> []"
    and "getByToken None tok s = None"
  shows "assign supa uuids rnd (Text tok) s
         = (InternalError ''Failed to create derangement'',
            s0\<lparr>derangement_calls := Suc (derangement_calls s0)\<rparr>)"
proof -
  have "getByToken (supa 0) tok s0 = None"
    using getByToken_error [OF assms(4)] getByToken_load [OF assms(1)] by simp
  moreover have "Str tok \<in> set (map token [p])"
    using assms(2) by simp
  ultimately show ?thesis
    using assign_generate [OF assms(1,3), of supa rnd] by (simp add: generate_single)
qed

lemma store_after_load:
  assumes "loadColleaguesWithTokens uuids s = (r, s0)"
  shows "getAllAssignments e (s0\<lparr>derangement_calls := c\<rparr>) = getAllAssignments e s"
    and "getByToken e t (s0\<lparr>derangement_calls := c\<rparr>) = getByToken e t s"
  using load_store [OF assms]
  by (cases e; simp add: getAllAssignments_def getByToken_def readLocalAssignments_def)+

lemma loaded_started_a: "loaded_with [alice] issued_a (started [alice] issued_a)"
  by (simp add: loaded_with_def started_def issued_a_def alice_def property_def)

lemma load_started_a:
  "loadColleaguesWithTokens uuids (started [alice] issued_a)
   = (Inr [alice_only], started [alice] issued_a)"
  using load_loaded [OF loaded_started_a, of uuids]
  by (simp add: with_token_def issued_a_def alice_def alice_only_def property_def)

lemma getByToken_started: "getByToken e t (started list tokens) = None"
  by (simp add: getByToken_def readLocalAssignments_def started_def)

text \<open>
  Claim C9: in a group of one, a reveal request with the participant's token, for which
  nothing is stored, is answered with status 500 and the generator's error; the rows in
  the store, read in bulk or by token, are those from before the request.
\<close>

theorem single_participant_fails:
  assumes "loadColleaguesWithTokens uuids s = (Inr [p], s0)" "token p = Str tok" "tok \<noteq> []"
    and "getByToken None tok s = None"
  shows "fst (assign supa uuids rnd (Text tok) s)
           = InternalError ''Failed to create derangement''
    \<and> getAllAssignments e (snd (assign supa uuids rnd (Text tok) s)) = getAllAssignments e s
    \<and> getByToken e t (snd (assign supa uuids rnd (Text tok) s)) = getByToken e t s
    \<and> assignments_json (snd (assign supa uuids rnd (Text tok) s)) = assignments_json s
    \<and> assignments_table (snd (assign supa uuids rnd (Text tok) s)) = assignments_table s"
  using assign_single [OF assms, of supa rnd] store_after_load [OF assms(1)]
    load_store [OF assms(1)]
  by simp

theorem single_participant_fails_witness:
  "loadColleaguesWithTokens uuid_source (started [alice] issued_a)
     = (Inr [alice_only], started [alice] issued_a)
   \<and> token alice_only = Str ''uuid-''
   \<and> ''uuid-'' \<noteq> []
   \<and> getByToken None ''uuid-'' (started [alice] issued_a) = None
   \<and> fst (assign no_errors uuid_source zero_source (Text ''uuid-'') (started [alice] issued_a))
       = InternalError ''Failed to create derangement''
   \<and> getAllAssignments None
        (snd (assign no_errors uuid_source zero_source (Text ''uuid-'') (started [alice] issued_a)))
       = getAllAssignments None (started [alice] issued_a)"
proof -
  have t: "token alice_only = Str ''uuid-''" "''uuid-'' \<noteq> []"
    by (simp_all add: alice_only_def)
  show ?thesis
    using single_participant_fails [OF load_started_a [of uuid_source] t getByToken_started,
        where supa = no_errors and rnd = zero_source and e = None]
      load_started_a [of uuid_source] t getByToken_started [of None "''uuid-''" "[alice]" issued_a]
    by blast
qed

text \<open>
  Claim C4, as stated, fails: the group has one member, the request carries her token,
  and the request is not rejected before generation: the generator is called (the count
  of calls goes from 0 to 1) and its error is reported with status 500.
\<close>

theorem single_participant_generates:
  "length (listed (started [alice] issued_a)) = 1
   \<and> derangement_calls (started [alice] issued_a) = 0
   \<and> assign no_errors uuid_source zero_source (Text ''uuid-'') (started [alice] issued_a)
       = (InternalError ''Failed to create derangement'',
          (started [alice] issued_a)\<lparr>derangement_calls := 1\<rparr>)"
proof -
  have t: "token alice_only = Str ''uuid-''" "''uuid-'' \<noteq> []"
    by (simp_all add: alice_only_def)
  have "listed (started [alice] issued_a) = [alice]"
    by (simp add: listed_def started_def)
  moreover have "derangement_calls (started [alice] issued_a) = 0"
    by (simp add: started_def)
  ultimately show ?thesis
    using assign_single [OF load_started_a [of uuid_source] t getByToken_started,
        where supa = no_errors and rnd = zero_source]
    by simp
qed

text \<open>
  Claim C4, amended: in a group of fewer than two, with nothing stored, a reveal request
  without a token (or with a falsy one) is answered with 400, and one with a token that is
  no member's with 404, both without a call of the generator (a group of none has no other
  requests); a request with the token of the only member calls the generator once and is
  answered with 500 and the generator's error. In every case the store is left as it is.
\<close>

theorem small_group_never_assigned:
  assumes "loadColleaguesWithTokens uuids s = (Inr people, s0)" "length people < 2"
    and "\<forall>t. getByToken None t s = None"
  shows "(falsy_body body_token \<longrightarrow>
            assign supa uuids rnd body_token s = (Status 400 ''token required'', s))
    \<and> (\<not> falsy_body body_token
         \<and> (\<forall>tok. body_token = Text tok \<longrightarrow> Str tok \<notin> set (map token people)) \<longrightarrow>
            assign supa uuids rnd body_token s = (Status 404 ''invalid token'', s0)
            \<and> derangement_calls s0 = derangement_calls s)
    \<and> (\<forall>tok. body_token = Text tok \<and> tok \<noteq> [] \<and> Str tok \<in> set (map token people) \<longrightarrow>
            assign supa uuids rnd body_token s
              = (InternalError ''Failed to create derangement'',
                 s0\<lparr>derangement_calls := Suc (derangement_calls s)\<rparr>))
    \<and> getAllAssignments e (snd (assign supa uuids rnd body_token s)) = getAllAssignments e s
    \<and> getByToken e t (snd (assign supa uuids rnd body_token s)) = getByToken e t s"
proof -
  have c: "derangement_calls s0 = derangement_calls s"
    using load_store(4) [OF assms(1)] .
  have g0: "getAllAssignments e s0 = getAllAssignments e s"
    by (rule getAllAssignments_cong) (simp_all add: load_store [OF assms(1)])
  have b0: "getByToken e t s0 = getByToken e t s"
    using assms(1) by (rule getByToken_load)
  have member: "assign supa uuids rnd (Text tok) s
      = (InternalError ''Failed to create derangement'',
         s0\<lparr>derangement_calls := Suc (derangement_calls s)\<rparr>)"
    if t: "tok \<noteq> []" and m: "Str tok \<in> set (map token people)" for tok
  proof -
    obtain p where p: "people = [p]"
      using assms(2) m by (cases people) auto
    with m have tp: "token p = Str tok"
      by simp
    have "getByToken None tok s = None"
      using assms(3) by simp
    then show ?thesis
      using assign_single [OF assms(1) [unfolded p] tp t, of supa rnd] c by simp
  qed
  show ?thesis
  proof (cases body_token)
    case Absent
    then show ?thesis
      using assign_400 [of body_token supa uuids rnd s] by simp
  next
    case (Other truthy)
    show ?thesis
    proof (cases truthy)
      case False
      with Other show ?thesis
        using assign_400 [of body_token supa uuids rnd s] by simp
    next
      case True
      with Other show ?thesis
        using assign_404_other [OF assms(1), of supa rnd] c g0 b0 by simp
    qed
  next
    case (Text tok)
    show ?thesis
    proof (cases "tok = []")
      case True
      with Text show ?thesis
        using assign_400 [of body_token supa uuids rnd s] by simp
    next
      case False
      show ?thesis
      proof (cases "Str tok \<in> set (map token people)")
        case m: False
        then show ?thesis
          using assign_404 [OF assms(1) False, of supa rnd] Text False c g0 b0 by simp
      next
        case m: True
        then show ?thesis
          using member [OF False m] Text False store_after_load [OF assms(1)] by simp
      qed
    qed
  qed
qed

theorem small_group_never_assigned_witness:
  "loadColleaguesWithTokens uuid_source (started [alice] issued_a)
     = (Inr [alice_only], started [alice] issued_a)
   \<and> length [alice_only] < 2
   \<and> getByToken None ''uuid-'' (started [alice] issued_a) = None
   \<and> assign no_errors uuid_source zero_source Absent (started [alice] issued_a)
       = (Status 400 ''token required'', started [alice] issued_a)
   \<and> assign no_errors uuid_source zero_source (Text ''nobody'') (started [alice] issued_a)
       = (Status 404 ''invalid token'', started [alice] issued_a)
   \<and> assign no_errors uuid_source zero_source (Text ''uuid-'') (started [alice] issued_a)
       = (InternalError ''Failed to create derangement'',
          (started [alice] issued_a)
            \<lparr>derangement_calls := Suc (derangement_calls (started [alice] issued_a))\<rparr>)
   \<and> getAllAssignments None
        (snd (assign no_errors uuid_source zero_source (Text ''uuid-'') (started [alice] issued_a)))
       = getAllAssignments None (started [alice] issued_a)"
proof -
  have l: "length [alice_only] < 2"
    by simp
  have n: "\<forall>t. getByToken None t (started [alice] issued_a) = None"
    by (simp add: getByToken_started)
  have u: "\<not> falsy_body (Text ''nobody'')"
    "\<forall>tok. Text ''nobody'' = Text tok \<longrightarrow> Str tok \<notin> set (map token [alice_only])"
    by (simp_all add: alice_only_def)
  have m: "''uuid-'' \<noteq> []" "Str ''uuid-'' \<in> set (map token [alice_only])"
    by (simp_all add: alice_only_def)
  note th = small_group_never_assigned [OF load_started_a [of uuid_source] l n,
      where supa = no_errors and rnd = zero_source and e = None]
  have a: "assign no_errors uuid_source zero_source Absent (started [alice] issued_a)
           = (Status 400 ''token required'', started [alice] issued_a)"
    using th [where body_token = Absent] by simp
  have b: "assign no_errors uuid_source zero_source (Text ''nobody'') (started [alice] issued_a)
           = (Status 404 ''invalid token'', started [alice] issued_a)"
    using th [where body_token = "Text ''nobody''"] u by blast
  have c: "assign no_errors uuid_source zero_source (Text ''uuid-'') (started [alice] issued_a)
           = (InternalError ''Failed to create derangement'',
              (started [alice] issued_a)
                \<lparr>derangement_calls := Suc (derangement_calls (started [alice] issued_a))\<rparr>)"
    using th [where body_token = "Text ''uuid-''"] m by blast
  have d: "getAllAssignments None
             (snd (assign no_errors uuid_source zero_source (Text ''uuid-'')
                    (started [alice] issued_a)))
           = getAllAssignments None (started [alice] issued_a)"
    using th [where body_token = "Text ''uuid-''"] by blast
  show ?thesis
    using load_started_a [of uuid_source] l n a b c d by simp
qed

lemma upt3: "[0..<3] = [0, Suc 0, 2]"
  by (simp add: upt_rec)

lemma derangement_zero_3: "derangement zero_source 3 = Inr [Suc 0, 2, 0]"
  unfolding derangement_def derangement_run_def upt3
  by (subst derangement_loop.simps)
    (simp add: every_moved_def random_index_def zero_source_def swap_def numeral_2_eq_2 upt_rec)

lemma floor_nine_eighths: "\<lfloor>9 / 8 :: rat\<rfloor> = 1"
  by (rule floor_unique) simp_all

lemma random_index_three_eighths:
  "random_index three_eighths_source k (Suc (Suc 0)) = Suc 0"
  "random_index three_eighths_source k (Suc 0) = 0"
  by (simp_all add: random_index_def three_eighths_source_def floor_nine_eighths)

lemma shuffle_three_eighths_3:
  "shuffle three_eighths_source 2 [0, Suc 0, 2] k = ([2, 0, Suc 0], Suc (Suc k))"
  unfolding numeral_2_eq_2
  by (simp add: random_index_three_eighths swap_def)

lemma derangement_three_eighths_3: "derangement three_eighths_source 3 = Inr [2, 0, Suc 0]"
  unfolding derangement_def derangement_run_def upt3
  by (subst derangement_loop.simps)
    (simp add: every_moved_def shuffle_three_eighths_3 upt_rec)

lemma loaded_on_supabase:
  "loaded_with [alice, bob, carol] issued_abc
     (on_supabase\<lparr>assignments_table := tbl, derangement_calls := c\<rparr>)"
  by (simp add: loaded_with_def on_supabase_def issued_abc_def alice_def bob_def carol_def
      property_def)

lemma with_token_abc:
  "map (with_token issued_abc) [alice, bob, carol] = [alice_p, bob_p, carol_p]"
  by (simp add: with_token_def issued_abc_def alice_def bob_def carol_def alice_p_def
      bob_p_def carol_p_def property_def)

lemma load_on_supabase:
  "loadColleaguesWithTokens uuids (on_supabase\<lparr>assignments_table := tbl, derangement_calls := c\<rparr>)
   = (Inr [alice_p, bob_p, carol_p],
      on_supabase\<lparr>assignments_table := tbl, derangement_calls := c\<rparr>)"
  using load_loaded [OF loaded_on_supabase, where uuids = uuids and tbl1 = tbl and c1 = c]
  by (simp only: with_token_abc)

lemma on_supabase_plain:
  "on_supabase\<lparr>assignments_table := [], derangement_calls := 0\<rparr> = on_supabase"
  by (simp add: on_supabase_def)

lemma build_first_draw:
  "buildAssignments zero_source [alice_p, bob_p, carol_p] = Inr first_draw"
proof -
  have "length [alice_p, bob_p, carol_p] = 3"
    by simp
  then show ?thesis
    unfolding buildAssignments_def
    by (simp only: derangement_zero_3)
      (simp add: build_rows_def upt_rec alice_p_def bob_p_def carol_p_def first_draw_def)
qed

lemma build_second_draw:
  "buildAssignments three_eighths_source [alice_p, bob_p, carol_p] = Inr second_draw"
proof -
  have "length [alice_p, bob_p, carol_p] = 3"
    by simp
  then show ?thesis
    unfolding buildAssignments_def
    by (simp only: derangement_three_eighths_3)
      (simp add: build_rows_def upt_rec alice_p_def bob_p_def carol_p_def second_draw_def)
qed

lemma upsert_first_draw: "upsert first_draw [] = Inr first_draw"
  by (simp add: upsert_def upsert_row_def written_def first_draw_def)

lemma upsert_second_draw: "upsert second_draw first_draw = Inr second_draw"
  by (simp add: upsert_def upsert_row_def written_def first_draw_def second_draw_def)

lemma generate_first_draw:
  "generate None zero_source [alice_p, bob_p, carol_p] on_supabase
   = (None, on_supabase\<lparr>assignments_table := first_draw, derangement_calls := 1\<rparr>)"
  by (simp add: generate_def build_first_draw saveAssignments_def upsert_first_draw
      on_supabase_def)

lemma generate_second_draw:
  "generate None three_eighths_source [alice_p, bob_p, carol_p]
     (on_supabase\<lparr>assignments_table := first_draw, derangement_calls := c\<rparr>)
   = (None, on_supabase\<lparr>assignments_table := second_draw, derangement_calls := Suc c\<rparr>)"
  by (simp add: generate_def build_second_draw saveAssignments_def upsert_second_draw
      on_supabase_def)

lemma getByToken_first_draw:
  "getByToken None ''uuid-'' (on_supabase\<lparr>assignments_table := first_draw, derangement_calls := c\<rparr>)
   = Some (first_draw ! 0)"
  by (simp add: getByToken_def on_supabase_def first_draw_def)

lemma getByToken_second_draw:
  "getByToken None ''uuid-'' (on_supabase\<lparr>assignments_table := second_draw, derangement_calls := c\<rparr>)
   = Some (second_draw ! 0)"
  by (simp add: getByToken_def on_supabase_def second_draw_def)

lemma respond_first_draw:
  "respond None [alice_p, bob_p, carol_p] ''uuid-''
     (on_supabase\<lparr>assignments_table := first_draw, derangement_calls := c\<rparr>)
   = Assignee (Some bob_p)"
  by (simp add: respond_def getByToken_first_draw)
    (simp add: first_draw_def alice_p_def bob_p_def carol_p_def)

lemma respond_second_draw:
  "respond None [alice_p, bob_p, carol_p] ''uuid-''
     (on_supabase\<lparr>assignments_table := second_draw, derangement_calls := c\<rparr>)
   = Assignee (Some carol_p)"
  by (simp add: respond_def getByToken_second_draw)
    (simp add: second_draw_def alice_p_def bob_p_def carol_p_def)

lemma alice_token_member: "Str ''uuid-'' \<in> set (map token [alice_p, bob_p, carol_p])"
  by (simp add: alice_p_def)

text \<open>
  Claim C2 at a failing input, on Supabase with three participants. Alice's first reveal
  request finds nothing stored, generates the rows of the whole group (Alice gives to
  Bob) and stores them; a lookup by her token then finds her row. In her second request
  the service answers the first lookup with an error: \<open>getByToken\<close> returns \<open>null\<close>
  as if nothing were stored, the handler calls the generator again, writes the new rows
  over the stored ones, and answers with another receiver (Carol).
\<close>

theorem reveal_regenerates_after_failed_lookup:
  "assign no_errors uuid_source zero_source (Text ''uuid-'') on_supabase
     = (Assignee (Some bob_p),
        on_supabase\<lparr>assignments_table := first_draw, derangement_calls := 1\<rparr>)
   \<and> getByToken None ''uuid-''
        (on_supabase\<lparr>assignments_table := first_draw, derangement_calls := 1\<rparr>)
     = Some (first_draw ! 0)
   \<and> assign first_call_fails uuid_source three_eighths_source (Text ''uuid-'')
        (on_supabase\<lparr>assignments_table := first_draw, derangement_calls := 1\<rparr>)
     = (Assignee (Some carol_p),
        on_supabase\<lparr>assignments_table := second_draw, derangement_calls := 2\<rparr>)
   \<and> bob_p \<noteq> carol_p"
proof -
  have t: "''uuid-'' \<noteq> []"
    by simp
  have l0: "loadColleaguesWithTokens uuid_source on_supabase
            = (Inr [alice_p, bob_p, carol_p], on_supabase)"
    using load_on_supabase [where uuids = uuid_source and tbl = "[]" and c = 0]
    by (simp only: on_supabase_plain)
  have n0: "getByToken (no_errors 0) ''uuid-'' on_supabase = None"
    by (simp add: getByToken_def on_supabase_def no_errors_def)
  have a: "assign no_errors uuid_source zero_source (Text ''uuid-'') on_supabase
           = (Assignee (Some bob_p),
              on_supabase\<lparr>assignments_table := first_draw, derangement_calls := 1\<rparr>)"
    using assign_generate [where supa = no_errors, OF l0 t alice_token_member n0,
        where rnd = zero_source]
    by (simp add: no_errors_def generate_first_draw respond_first_draw)
  have n1: "getByToken (first_call_fails 0) ''uuid-''
              (on_supabase\<lparr>assignments_table := first_draw, derangement_calls := 1\<rparr>) = None"
    by (simp add: getByToken_def on_supabase_def first_call_fails_def)
  have b: "assign first_call_fails uuid_source three_eighths_source (Text ''uuid-'')
             (on_supabase\<lparr>assignments_table := first_draw, derangement_calls := 1\<rparr>)
           = (Assignee (Some carol_p),
              on_supabase\<lparr>assignments_table := second_draw, derangement_calls := 2\<rparr>)"
    using assign_generate [where supa = first_call_fails,
        OF load_on_supabase t alice_token_member n1, where rnd = three_eighths_source]
    by (simp add: first_call_fails_def generate_second_draw respond_second_draw)
  have c: "bob_p \<noteq> carol_p"
    by (simp add: bob_p_def carol_p_def)
  show ?thesis
    using a b c getByToken_first_draw [of 1] by simp
qed

text \<open>
  Where no lookup fails the reveal is idempotent, on both backends: once a reveal request
  with a token has been answered with a receiver, a later request with that token is
  answered with the same receiver and changes nothing; and when the first request found
  nothing stored, it called the generator once and stored a row for every member, so that
  a later request with any member's token is answered from the stored rows and changes
  nothing. On Supabase the lemma assumes that the lookups of the requests are answered
  without error and that the table has one row per token.
\<close>

lemma respond_local: "\<not> hasSupabase s \<Longrightarrow> respond e people t s = respond None people t s"
  by (simp add: respond_def getByToken_local [of s e])

lemma reveal_again_same:
  assumes "truthy_uuids uuids" "hasSupabase s \<Longrightarrow> table_keyed s"
    and "hasSupabase s \<Longrightarrow> supa 1 = None \<and> supa 2 = None \<and> supa' 0 = None \<and> supa' 1 = None"
    and "loadColleaguesWithTokens uuids s = (Inr people, s0)"
    and "assign supa uuids rnd (Text tok) s = (Assignee a, s1)"
  shows "assign supa' uuids' rnd' (Text tok) s1 = (Assignee a, s1)
    \<and> (getByToken None tok s = None \<longrightarrow>
         derangement_calls s1 = Suc (derangement_calls s)
         \<and> (\<forall>p\<in>set people. \<forall>t. token p = Str t \<longrightarrow>
               (\<exists>b. assign supa' uuids' rnd' (Text t) s1 = (Assignee b, s1))))"
proof -
  obtain tokens where l0: "loaded_with (listed s) tokens s0"
    and people: "people = map (with_token tokens) (listed s)"
    using loaded_after_load [OF assms(1,4)] by blast
  have h0: "hasSupabase s0 = hasSupabase s"
    using load_store(1) [OF assms(4)] .
  have t: "tok \<noteq> []"
    using assms(5) by (cases "tok = []") (auto simp add: assign_def)
  have m: "Str tok \<in> set (map token people)"
  proof (rule ccontr)
    assume "Str tok \<notin> set (map token people)"
    then show False
      using assign_404 [OF assms(4) t, of supa rnd] assms(5) by simp
  qed
  let ?s0' = "s0\<lparr>derangement_calls := Suc (derangement_calls s0)\<rparr>"
  have k0: "table_keyed ?s0'" if "hasSupabase ?s0'"
    using assms(2) that h0 load_store(3) [OF assms(4)] by (simp add: table_keyed_def)
  have l0': "loaded_with (listed s) tokens ?s0'"
    using l0 by (simp add: loaded_with_def)
  have none_of: "e = None" if "hasSupabase s" "e \<in> {supa 1, supa 2, supa' 0, supa' 1}" for e
    using assms(3) [OF that(1)] that(2) by auto
  have lookup: "getByToken e u x = getByToken None u x"
    if "hasSupabase x = hasSupabase s" "e \<in> {supa 1, supa 2, supa' 0, supa' 1}" for e u x
  proof (cases "hasSupabase s")
    case True
    show ?thesis
      using none_of [OF True that(2)] by simp
  next
    case False
    with that(1) have "\<not> hasSupabase x"
      by simp
    then show ?thesis
      by (rule getByToken_local)
  qed
  have resp: "respond e people u x = respond None people u x"
    if "hasSupabase x = hasSupabase s" "e \<in> {supa 1, supa 2, supa' 0, supa' 1}" for e u x
    using lookup [OF that] by (simp add: respond_def)
  consider (existing) row where "getByToken (supa 0) tok s0 = Some row"
    | (generated) "getByToken (supa 0) tok s0 = None"
    by (cases "getByToken (supa 0) tok s0") auto
  then have shape: "Assignee a = respond None people tok s1 \<and> hasSupabase s1 = hasSupabase s
      \<and> loaded_with (listed s) tokens s1
      \<and> ((getByToken (supa 0) tok s0 \<noteq> None \<and> s1 = s0)
          \<or> (\<exists>err. generate err rnd people s0 = (None, s1)))"
  proof cases
    case existing
    then have "assign supa uuids rnd (Text tok) s = (respond (supa 1) people tok s0, s0)"
      using assms(4) t m by (intro assign_existing)
    with assms(5) have "Assignee a = respond (supa 1) people tok s0" "s1 = s0"
      by auto
    with existing l0 h0 show ?thesis
      using resp [of s0 "supa 1" tok] by simp
  next
    case generated
    obtain e s2 where g: "generate (supa 1) rnd people s0 = (e, s2)"
      by (cases "generate (supa 1) rnd people s0")
    have "e = None \<and> s2 = s1 \<and> Assignee a = respond (supa 2) people tok s1"
      using assign_generate [where supa = supa, OF assms(4) t m generated, where rnd = rnd]
        assms(5) g
      by (cases e) auto
    then have g1: "generate (supa 1) rnd people s0 = (None, s1)"
      and r: "Assignee a = respond (supa 2) people tok s1"
      using g by simp_all
    obtain rows where sv: "saveAssignments (supa 1) rows ?s0' = Inr s1"
      using generate_None [OF g1] by blast
    have h1: "hasSupabase s1 = hasSupabase s"
      using sv h0
      by (cases "hasSupabase s0")
        (auto simp add: saveAssignments_def ensureDataDirAndSeed_eq
          split: option.splits sum.splits)
    have "loaded_with (listed s) tokens s1"
      using l0' sv by (rule saveAssignments_loaded)
    with r h1 g1 show ?thesis
      using resp [of s1 "supa 2" tok] by auto
  qed
  then have a: "Assignee a = respond None people tok s1" and h1: "hasSupabase s1 = hasSupabase s"
    and l1: "loaded_with (listed s) tokens s1"
    and how: "(getByToken (supa 0) tok s0 \<noteq> None \<and> s1 = s0)
              \<or> (\<exists>err. generate err rnd people s0 = (None, s1))"
    by simp_all
  have load1: "loadColleaguesWithTokens uuids' s1 = (Inr people, s1)"
    using load_loaded [OF l1] people by simp
  have stored: "getByToken None u s1 \<noteq> None"
    if g: "generate err rnd people s0 = (None, s1)" and mu: "Str u \<in> set (map token people)"
    for err u
  proof -
    obtain rows where b: "buildAssignments rnd people = Inr rows"
      and sv: "saveAssignments err rows ?s0' = Inr s1"
      using generate_None [OF g] by blast
    have "Str u \<in> set (map giver_token rows)"
      using mu giver_tokens_buildAssignments [OF b] by simp
    with k0 sv show ?thesis
      by (intro getByToken_saved [of ?s0' err rows s1 u])
  qed
  have again: "assign supa' uuids' rnd' (Text u) s1 = (respond None people u s1, s1)"
    if u: "u \<noteq> []" and mu: "Str u \<in> set (map token people)"
      and f: "getByToken None u s1 \<noteq> None" for u
  proof -
    obtain row where "getByToken (supa' 0) u s1 = Some row"
      using f lookup [OF h1, of "supa' 0" u] by auto
    then have "assign supa' uuids' rnd' (Text u) s1 = (respond (supa' 1) people u s1, s1)"
      using load1 u mu by (intro assign_existing)
    then show ?thesis
      using resp [OF h1, of "supa' 1" u] by simp
  qed
  have found: "getByToken None tok s1 \<noteq> None"
  proof (cases "\<exists>err. generate err rnd people s0 = (None, s1)")
    case True
    then show ?thesis
      using stored m by blast
  next
    case False
    with how have e: "getByToken (supa 0) tok s0 \<noteq> None" and "s1 = s0"
      by simp_all
    have "getByToken None tok s0 \<noteq> None"
    proof
      assume "getByToken None tok s0 = None"
      then have "getByToken (supa 0) tok s0 = None"
        by (rule getByToken_error)
      with e show False by simp
    qed
    with \<open>s1 = s0\<close> show ?thesis by simp
  qed
  have first: "assign supa' uuids' rnd' (Text tok) s1 = (Assignee a, s1)"
    using again [OF t m found] a by simp
  have second: "derangement_calls s1 = Suc (derangement_calls s)
      \<and> (\<forall>p\<in>set people. \<forall>u. token p = Str u \<longrightarrow>
            (\<exists>b. assign supa' uuids' rnd' (Text u) s1 = (Assignee b, s1)))"
    if n: "getByToken None tok s = None"
  proof -
    have "getByToken (supa 0) tok s0 = None"
      using getByToken_error [OF n] getByToken_load [OF assms(4)] by simp
    then obtain err where g: "generate err rnd people s0 = (None, s1)"
      using how by auto
    have c: "derangement_calls s1 = Suc (derangement_calls s)"
      using generate_calls [OF g] load_store(4) [OF assms(4)] by simp
    have "\<exists>b. assign supa' uuids' rnd' (Text u) s1 = (Assignee b, s1)"
      if p: "p \<in> set people" and tu: "token p = Str u" for p u
    proof -
      have "u \<noteq> []"
        using load_tokens(2) [OF assms(1,4) p] tu by simp
      moreover have mu: "Str u \<in> set (map token people)"
        using p tu by (metis image_eqI list.set_map)
      ultimately show ?thesis
        using again [OF _ mu stored [OF g mu]] by (simp add: respond_def)
    qed
    with c show ?thesis by blast
  qed
  show ?thesis
    using first second by blast
qed

text \<open>
  Claim C10 at a failing input: on Supabase, with rows stored in the table and the data
  directory not yet made, the reset throws at \<open>writeJSON\<close>, before the table is
  reached. It is answered with 500 and the state is the one before: a lookup by Alice's
  token still finds her row, and the bulk listing is not empty.
\<close>

theorem reset_fails_without_data_directory:
  "reset no_errors redeployed = (Status 500 ''failed to reset'', redeployed)
   \<and> getByToken None ''uuid-'' (snd (reset no_errors redeployed)) = Some (alice_bob_rows ! 0)
   \<and> getAllAssignments None (snd (reset no_errors redeployed)) \<noteq> Inr []"
proof -
  have r: "reset no_errors redeployed = (Status 500 ''failed to reset'', redeployed)"
    by (simp add: reset_def redeployed_def)
  have g: "getByToken None ''uuid-'' redeployed = Some (alice_bob_rows ! 0)"
    by (simp add: getByToken_def redeployed_def alice_bob_rows_def)
  have "sort_key giver (assignments_table redeployed) \<noteq> []"
  proof
    assume "sort_key giver (assignments_table redeployed) = []"
    then have "length (sort_key giver (assignments_table redeployed)) = 0"
      by simp
    then have "length (assignments_table redeployed) = 0"
      by (simp only: length_sort)
    then show False
      by (simp add: redeployed_def alice_bob_rows_def)
  qed
  then have a: "getAllAssignments None redeployed \<noteq> Inr []"
    by (simp add: getAllAssignments_def redeployed_def)
  show ?thesis
    using r g a by simp
qed

text \<open>
  With the data directory in place and the delete answered without error, the reset is
  answered with \<open>ok\<close>, and after it the bulk listing is empty and no token has an
  assignment, so that the next reveal request with a participant's token calls the
  generator.
\<close>

lemma assign_calls:
  assumes "loadColleaguesWithTokens uuids s = (Inr people, s0)" "tok \<noteq> []"
    and "Str tok \<in> set (map token people)" "getByToken None tok s = None"
  shows "derangement_calls (snd (assign supa uuids rnd (Text tok) s)) = Suc (derangement_calls s)"
proof -
  have n: "getByToken (supa 0) tok s0 = None"
    using getByToken_error [OF assms(4)] getByToken_load [OF assms(1)] by simp
  obtain e s2 where g: "generate (supa 1) rnd people s0 = (e, s2)"
    by (cases "generate (supa 1) rnd people s0")
  have "snd (assign supa uuids rnd (Text tok) s) = s2"
    using assign_generate [where supa = supa, OF assms(1,2,3) n, where rnd = rnd] g
    by (cases e) simp_all
  then show ?thesis
    using generate_calls [OF g] load_store(4) [OF assms(1)] by simp
qed

lemma reset_clears:
  assumes "dataDir_exists s" "hasSupabase s \<Longrightarrow> supa 0 = None \<and> tokens_truthy s"
  shows "fst (reset supa s) = Ok \<and> getAllAssignments None (snd (reset supa s)) = Inr []
    \<and> (\<forall>e t. getByToken e t (snd (reset supa s)) = None)
    \<and> (\<forall>people s2 tok. loadColleaguesWithTokens uuids (snd (reset supa s)) = (Inr people, s2)
           \<and> tok \<noteq> [] \<and> Str tok \<in> set (map token people)
         \<longrightarrow> derangement_calls (snd (assign supa' uuids rnd (Text tok) (snd (reset supa s))))
             = Suc (derangement_calls (snd (reset supa s))))"
proof -
  have e: "filter (\<lambda>r. \<not> (is_string (giver_token r) \<and> giver_token r \<noteq> Str []))
             (assignments_table s) = []" if "hasSupabase s"
    using assms(2) [OF that] by (simp add: tokens_truthy_def filter_empty_conv)
  have r: "reset supa s = (Ok, if hasSupabase s
                               then s\<lparr>assignments_json := Some [], assignments_table := []\<rparr>
                               else s\<lparr>assignments_json := Some []\<rparr>)"
    using assms e by (simp add: reset_def Let_def)
  have a: "getAllAssignments None (snd (reset supa s)) = Inr []"
    by (simp add: r getAllAssignments_def readLocalAssignments_def)
  have b: "getByToken e t (snd (reset supa s)) = None" for e t
    by (cases e) (simp_all add: r getByToken_def readLocalAssignments_def)
  have "fst (reset supa s) = Ok"
    by (simp add: r)
  then show ?thesis
    using a b assign_calls [of uuids "snd (reset supa s)" _ _ _ supa' rnd] by blast
qed

section \<open>The conditions on the table are invariants\<close>

lemma saveAssignments_table:
  assumes "saveAssignments err rows s = Inr s2"
  shows "set (map giver_token (assignments_table s2))
         \<subseteq> set (map giver_token (assignments_table s)) \<union> set (map giver_token (map written rows))"
    and "distinct (map giver_token (assignments_table s))
         \<Longrightarrow> distinct (map giver_token (assignments_table s2))"
proof -
  show "set (map giver_token (assignments_table s2))
        \<subseteq> set (map giver_token (assignments_table s)) \<union> set (map giver_token (map written rows))"
  proof (cases "hasSupabase s")
    case False
    with assms show ?thesis
      by (auto simp add: saveAssignments_def ensureDataDirAndSeed_eq)
  next
    case True
    with assms have "assignments_table s2 = fold upsert_row (map written rows) (assignments_table s)"
      by (auto simp add: saveAssignments_def upsert_def split: if_splits option.splits)
    then show ?thesis
      by (simp only: keys_fold_upsert)
  qed
next
  assume d: "distinct (map giver_token (assignments_table s))"
  show "distinct (map giver_token (assignments_table s2))"
  proof (cases "hasSupabase s")
    case False
    with assms d show ?thesis
      by (auto simp add: saveAssignments_def ensureDataDirAndSeed_eq)
  next
    case True
    with assms have "assignments_table s2 = fold upsert_row (map written rows) (assignments_table s)"
      by (auto simp add: saveAssignments_def upsert_def split: if_splits option.splits)
    with d show ?thesis
      by (simp add: distinct_fold_upsert)
  qed
qed

lemma saveAssignments_strings:
  assumes "saveAssignments err rows s = Inr s2" "hasSupabase s"
  shows "list_all (\<lambda>r. is_string (giver_token r)) rows"
  using assms by (auto simp add: saveAssignments_def upsert_def split: if_splits option.splits)

lemma generate_table:
  assumes "generate err rnd people s = (e, s2)" "\<forall>p\<in>set people. \<not> falsy (token p)"
    and "hasSupabase s" "tokens_truthy s" "table_keyed s"
  shows "tokens_truthy s2 \<and> table_keyed s2"
proof (cases e)
  case (Some err')
  with assms(1) have "s2 = s\<lparr>derangement_calls := Suc (derangement_calls s)\<rparr>"
    by (auto simp add: generate_def Let_def split: sum.splits)
  with assms(4,5) show ?thesis
    by (simp add: tokens_truthy_def table_keyed_def)
next
  case None
  let ?s = "s\<lparr>derangement_calls := Suc (derangement_calls s)\<rparr>"
  obtain rows where b: "buildAssignments rnd people = Inr rows"
    and sv: "saveAssignments err rows ?s = Inr s2"
    using generate_None assms(1) None by blast
  have g: "map giver_token rows = map token people"
    using b by (rule giver_tokens_buildAssignments)
  have str: "list_all (\<lambda>r. is_string (giver_token r)) rows"
    using saveAssignments_strings [OF sv] assms(3) by simp
  have new: "is_string (json (giver_token r)) \<and> json (giver_token r) \<noteq> Str []"
    if r: "r \<in> set rows" for r
  proof -
    have "giver_token r \<in> set (map token people)"
      using g r by (metis image_eqI list.set_map)
    then have "\<not> falsy (giver_token r)"
      using assms(2) by auto
    moreover have "is_string (giver_token r)"
      using str r by (simp add: list_all_iff)
    ultimately show ?thesis
      by (cases "giver_token r") auto
  qed
  have sub: "set (map giver_token (assignments_table s2))
        \<subseteq> set (map giver_token (assignments_table s)) \<union> set (map giver_token (map written rows))"
    using saveAssignments_table(1) [OF sv] by simp
  have "is_string v \<and> v \<noteq> Str []" if v: "v \<in> set (map giver_token (assignments_table s2))" for v
  proof -
    consider "v \<in> set (map giver_token (assignments_table s))"
      | "v \<in> set (map giver_token (map written rows))"
      using sub v by blast
    then show ?thesis
    proof cases
      case 1
      then show ?thesis
        using assms(4) by (auto simp add: tokens_truthy_def)
    next
      case 2
      then have "v \<in> (\<lambda>r. json (giver_token r)) ` set rows"
        by (simp add: comp_def)
      then obtain r where "r \<in> set rows" "v = json (giver_token r)"
        by auto
      then show ?thesis
        using new [of r] by simp
    qed
  qed
  then have "\<forall>r\<in>set (assignments_table s2). is_string (giver_token r) \<and> giver_token r \<noteq> Str []"
    by simp
  then have "tokens_truthy s2"
    by (simp add: tokens_truthy_def)
  moreover have "table_keyed s2"
    using saveAssignments_table(2) [OF sv] assms(5) by (simp add: table_keyed_def)
  ultimately show ?thesis by simp
qed

text \<open>
  The two conditions on the table assumed above hold of the empty table and are kept by
  both handlers on Supabase: a row is stored under a participant's token, a string that
  is not empty, and \<open>upsert\<close> keeps one row per token.
\<close>

lemma assign_keeps_table:
  assumes "truthy_uuids uuids" "hasSupabase s" "tokens_truthy s" "table_keyed s"
  shows "tokens_truthy (snd (assign supa uuids rnd body_token s))
       \<and> table_keyed (snd (assign supa uuids rnd body_token s))"
proof -
  obtain r s0 where l: "loadColleaguesWithTokens uuids s = (r, s0)"
    by (cases "loadColleaguesWithTokens uuids s")
  obtain people where r: "r = Inr people"
    using l by (auto simp add: load_eq)
  have t0: "tokens_truthy s0" "table_keyed s0" "hasSupabase s0"
    using assms(2,3,4) load_store(1,3) [OF l] by (simp_all add: tokens_truthy_def table_keyed_def)
  have tr: "\<forall>p\<in>set people. \<not> falsy (token p)"
    using load_tokens(2) [OF assms(1)] l r by blast
  obtain e s2 where g: "generate (supa 1) rnd people s0 = (e, s2)"
    by (cases "generate (supa 1) rnd people s0")
  have t2: "tokens_truthy s2 \<and> table_keyed s2"
    using g tr t0(3,1,2) by (rule generate_table)
  have "snd (assign supa uuids rnd body_token s) \<in> {s, s0, s2}"
    using l r g
    by (cases e) (auto simp add: assign_def Let_def split: option.splits body.splits)
  then show ?thesis
    using assms(3,4) t0 t2 by auto
qed

lemma reset_keeps_table:
  assumes "tokens_truthy s" "table_keyed s"
  shows "tokens_truthy (snd (reset supa s)) \<and> table_keyed (snd (reset supa s))"
  using assms
  by (auto simp add: reset_def Let_def tokens_truthy_def table_keyed_def distinct_map_filter
      split: option.splits)

end
